theory Spec2Isabelle
  imports Main "HOL-Library.Multiset"
begin

section \<open>Strings and bytes\<close>

text \<open>
  A Go \<^verbatim>\<open>string\<close> is a sequence of bytes and \<^verbatim>\<open>len\<close> counts bytes. It is
  modelled as \<^typ>\<open>string\<close>, a list of 8-bit characters; \<open>byte c\<close> is the numeric value
  of the byte \<open>c\<close>.
\<close>

definition byte :: "char \<Rightarrow> nat" where
  "byte c = of_char c"

section \<open>Package feature: validation of the feature name\<close>

subsection \<open>The library function \<^verbatim>\<open>url.PathEscape\<close>\<close>

text \<open>
  \<^verbatim>\<open>IsValidName\<close> calls \<^verbatim>\<open>url.PathEscape\<close> of Go's \<^verbatim>\<open>net/url\<close>, which is
  \<^verbatim>\<open>escape(s, encodePathSegment)\<close>. \<open>shouldEscape\<close> is the library's
  \<^verbatim>\<open>shouldEscape(c, encodePathSegment)\<close>: letters and digits are kept; so are the
  marks \<^verbatim>\<open>- _ . ~\<close>; of the reserved characters \<^verbatim>\<open>$ & + , / : ; = ? @\<close> the segment mode
  escapes \<^verbatim>\<open>/ ; , ?\<close> and keeps the rest; every other byte is escaped.
\<close>

definition isAlnum :: "char \<Rightarrow> bool" where
  "isAlnum c \<longleftrightarrow>
     (byte (CHR ''a'') \<le> byte c \<and> byte c \<le> byte (CHR ''z'')) \<or>
     (byte (CHR ''A'') \<le> byte c \<and> byte c \<le> byte (CHR ''Z'')) \<or>
     (byte (CHR ''0'') \<le> byte c \<and> byte c \<le> byte (CHR ''9''))"

definition shouldEscape :: "char \<Rightarrow> bool" where
  "shouldEscape c =
     (if isAlnum c then False
      else if c \<in> set ''-_.~'' then False
      else if c \<in> set ''$&+,/:;=?@'' then
        (c = CHR ''/'' \<or> c = CHR '';'' \<or> c = CHR '','' \<or> c = CHR ''?'')
      else True)"

definition upperhex :: "nat \<Rightarrow> char" where
  "upperhex n = ''0123456789ABCDEF'' ! n"

text \<open>
  \<^verbatim>\<open>escape\<close> counts the bytes to escape; with none it returns its argument, otherwise it
  builds the result in which each such byte \<open>c\<close> is replaced by \<^verbatim>\<open>%\<close> and the two
  upper-case hexadecimal digits \<^verbatim>\<open>c>>4\<close> and \<^verbatim>\<open>c&15\<close>. (The replacement of a space by
  \<^verbatim>\<open>+\<close> belongs to the query mode only.)
\<close>

definition escapeByte :: "char \<Rightarrow> string" where
  "escapeByte c =
     (if shouldEscape c
      then [CHR ''%'', upperhex (byte c div 16), upperhex (byte c mod 16)]
      else [c])"

definition escape :: "string \<Rightarrow> string" where
  "escape s =
     (let hexCount = length (filter shouldEscape s)
      in if hexCount = 0 then s else concat (map escapeByte s))"

definition PathEscape :: "string \<Rightarrow> string" where
  "PathEscape s = escape s"

subsection \<open>\<^verbatim>\<open>IsValidName\<close>\<close>

definition IsValidName :: "string \<Rightarrow> bool" where
  "IsValidName name =
     (if length name < 1 \<or> length name > 100 then False
      else if name = ''.'' \<or> name = ''..'' then False
      else let encoded = PathEscape name in encoded = name)"

section \<open>The library package encoding/json, as the handler uses it\<close>

text \<open>
  The handler decodes the body with \<^verbatim>\<open>json.NewDecoder(r.Body).Decode(&req)\<close>. The
  decoder belongs to Go's standard library; this section models the part of it that
  decides the result for the struct \<^verbatim>\<open>Request\<close>: the scanner (\<^verbatim>\<open>scanner.go\<close>), which
  validates the syntax byte by byte, \<^verbatim>\<open>Decoder.readValue\<close> (\<^verbatim>\<open>stream.go\<close>), which
  finds where the first value of the body ends, and the stores of \<^verbatim>\<open>decodeState\<close>
  (\<^verbatim>\<open>decode.go\<close>) into the three string fields.
\<close>

subsection \<open>The scanner\<close>

text \<open>
  The scanner is a state machine: \<open>scanStep\<close> names its current step function,
  \<open>parseStack\<close> is the stack of the enclosing objects and arrays (innermost first),
  \<open>endTop\<close> tells that the top-level value has ended and \<open>scanErr\<close> that an error has
  been recorded. \<open>scan_step s c\<close> is \<^verbatim>\<open>s.step(s, c)\<close>: the opcode and the new scanner.
  Every \<open>_fn\<close> definition is the Go function of that name.
\<close>

datatype opcode =
  scanContinue | scanBeginLiteral | scanBeginObject | scanObjectKey | scanObjectValue |
  scanEndObject | scanBeginArray | scanArrayValue | scanEndArray | scanSkipSpace |
  scanEnd | scanError

datatype parseState = parseObjectKey | parseObjectValue | parseArrayValue

datatype stepState =
  stateBeginValue | stateBeginValueOrEmpty | stateBeginStringOrEmpty | stateBeginString |
  stateEndValue | stateEndTop |
  stateInString | stateInStringEsc | stateInStringEscU | stateInStringEscU1 |
  stateInStringEscU12 | stateInStringEscU123 |
  stateNeg | state1 | state0 | stateDot | stateDot0 | stateE | stateESign | stateE0 |
  stateT | stateTr | stateTru | stateF | stateFa | stateFal | stateFals |
  stateN | stateNu | stateNul | stateError

record scanner =
  scanStep :: stepState
  parseStack :: "parseState list"
  endTop :: bool
  scanErr :: bool

definition maxNestingDepth :: nat where
  "maxNestingDepth = 10000"

definition reset :: scanner where
  "reset = \<lparr>scanStep = stateBeginValue, parseStack = [], endTop = False, scanErr = False\<rparr>"

definition isSpace :: "char \<Rightarrow> bool" where
  "isSpace c \<longleftrightarrow> c = CHR '' '' \<or> c = CHR 0x09 \<or> c = CHR 0x0D \<or> c = CHR 0x0A"

definition isDigit :: "char \<Rightarrow> bool" where
  "isDigit c \<longleftrightarrow> byte (CHR ''0'') \<le> byte c \<and> byte c \<le> byte (CHR ''9'')"

definition isDigit19 :: "char \<Rightarrow> bool" where
  "isDigit19 c \<longleftrightarrow> byte (CHR ''1'') \<le> byte c \<and> byte c \<le> byte (CHR ''9'')"

definition isHex :: "char \<Rightarrow> bool" where
  "isHex c \<longleftrightarrow> isDigit c \<or>
     (byte (CHR ''a'') \<le> byte c \<and> byte c \<le> byte (CHR ''f'')) \<or>
     (byte (CHR ''A'') \<le> byte c \<and> byte c \<le> byte (CHR ''F''))"

definition scan_error :: "scanner \<Rightarrow> opcode \<times> scanner" where
  "scan_error s = (scanError, s\<lparr>scanStep := stateError, scanErr := True\<rparr>)"

definition continue :: "stepState \<Rightarrow> scanner \<Rightarrow> opcode \<times> scanner" where
  "continue st s = (scanContinue, s\<lparr>scanStep := st\<rparr>)"

definition beginLiteral :: "stepState \<Rightarrow> scanner \<Rightarrow> opcode \<times> scanner" where
  "beginLiteral st s = (scanBeginLiteral, s\<lparr>scanStep := st\<rparr>)"

definition pushParseState :: "scanner \<Rightarrow> parseState \<Rightarrow> opcode \<Rightarrow> opcode \<times> scanner" where
  "pushParseState s newParseState successState =
     (let s' = s\<lparr>parseStack := newParseState # parseStack s\<rparr>
      in if length (parseStack s') \<le> maxNestingDepth then (successState, s') else scan_error s')"

definition popParseState :: "parseState list \<Rightarrow> scanner \<Rightarrow> scanner" where
  "popParseState rest s =
     (if length rest = 0 then s\<lparr>parseStack := rest, scanStep := stateEndTop, endTop := True\<rparr>
      else s\<lparr>parseStack := rest, scanStep := stateEndValue\<rparr>)"

definition stateEndTop_fn :: "scanner \<Rightarrow> char \<Rightarrow> opcode \<times> scanner" where
  "stateEndTop_fn s c = (if \<not> isSpace c then (scanEnd, snd (scan_error s)) else (scanEnd, s))"

definition stateEndValue_fn :: "scanner \<Rightarrow> char \<Rightarrow> opcode \<times> scanner" where
  "stateEndValue_fn s c =
     (case parseStack s of
        [] \<Rightarrow> stateEndTop_fn (s\<lparr>scanStep := stateEndTop, endTop := True\<rparr>) c
      | ps # rest \<Rightarrow>
          if isSpace c then (scanSkipSpace, s\<lparr>scanStep := stateEndValue\<rparr>)
          else (case ps of
             parseObjectKey \<Rightarrow>
               if c = CHR '':''
               then (scanObjectKey,
                     s\<lparr>parseStack := parseObjectValue # rest, scanStep := stateBeginValue\<rparr>)
               else scan_error s
           | parseObjectValue \<Rightarrow>
               if c = CHR '',''
               then (scanObjectValue,
                     s\<lparr>parseStack := parseObjectKey # rest, scanStep := stateBeginString\<rparr>)
               else if c = CHR ''}'' then (scanEndObject, popParseState rest s)
               else scan_error s
           | parseArrayValue \<Rightarrow>
               if c = CHR '','' then (scanArrayValue, s\<lparr>scanStep := stateBeginValue\<rparr>)
               else if c = CHR '']'' then (scanEndArray, popParseState rest s)
               else scan_error s))"

definition stateBeginValue_fn :: "scanner \<Rightarrow> char \<Rightarrow> opcode \<times> scanner" where
  "stateBeginValue_fn s c =
     (if isSpace c then (scanSkipSpace, s)
      else if c = CHR ''{''
        then pushParseState (s\<lparr>scanStep := stateBeginStringOrEmpty\<rparr>) parseObjectKey scanBeginObject
      else if c = CHR ''[''
        then pushParseState (s\<lparr>scanStep := stateBeginValueOrEmpty\<rparr>) parseArrayValue scanBeginArray
      else if c = CHR 0x22 then beginLiteral stateInString s
      else if c = CHR ''-'' then beginLiteral stateNeg s
      else if c = CHR ''0'' then beginLiteral state0 s
      else if c = CHR ''t'' then beginLiteral stateT s
      else if c = CHR ''f'' then beginLiteral stateF s
      else if c = CHR ''n'' then beginLiteral stateN s
      else if isDigit19 c then beginLiteral state1 s
      else scan_error s)"

definition stateBeginValueOrEmpty_fn :: "scanner \<Rightarrow> char \<Rightarrow> opcode \<times> scanner" where
  "stateBeginValueOrEmpty_fn s c =
     (if isSpace c then (scanSkipSpace, s)
      else if c = CHR '']'' then stateEndValue_fn s c
      else stateBeginValue_fn s c)"

definition stateBeginString_fn :: "scanner \<Rightarrow> char \<Rightarrow> opcode \<times> scanner" where
  "stateBeginString_fn s c =
     (if isSpace c then (scanSkipSpace, s)
      else if c = CHR 0x22 then beginLiteral stateInString s
      else scan_error s)"

definition stateBeginStringOrEmpty_fn :: "scanner \<Rightarrow> char \<Rightarrow> opcode \<times> scanner" where
  "stateBeginStringOrEmpty_fn s c =
     (if isSpace c then (scanSkipSpace, s)
      else if c = CHR ''}''
        then stateEndValue_fn (s\<lparr>parseStack := parseObjectValue # tl (parseStack s)\<rparr>) c
      else stateBeginString_fn s c)"

definition stateInString_fn :: "scanner \<Rightarrow> char \<Rightarrow> opcode \<times> scanner" where
  "stateInString_fn s c =
     (if c = CHR 0x22 then continue stateEndValue s
      else if c = CHR 0x5C then continue stateInStringEsc s
      else if byte c < 0x20 then scan_error s
      else (scanContinue, s))"

definition stateInStringEsc_fn :: "scanner \<Rightarrow> char \<Rightarrow> opcode \<times> scanner" where
  "stateInStringEsc_fn s c =
     (if c \<in> set [CHR ''b'', CHR ''f'', CHR ''n'', CHR ''r'', CHR ''t'', CHR 0x5C, CHR ''/'', CHR 0x22]
      then continue stateInString s
      else if c = CHR ''u'' then continue stateInStringEscU s
      else scan_error s)"

definition hexThen :: "stepState \<Rightarrow> scanner \<Rightarrow> char \<Rightarrow> opcode \<times> scanner" where
  "hexThen st s c = (if isHex c then continue st s else scan_error s)"

definition stateNeg_fn :: "scanner \<Rightarrow> char \<Rightarrow> opcode \<times> scanner" where
  "stateNeg_fn s c =
     (if c = CHR ''0'' then continue state0 s
      else if isDigit19 c then continue state1 s
      else scan_error s)"

definition state0_fn :: "scanner \<Rightarrow> char \<Rightarrow> opcode \<times> scanner" where
  "state0_fn s c =
     (if c = CHR ''.'' then continue stateDot s
      else if c = CHR ''e'' \<or> c = CHR ''E'' then continue stateE s
      else stateEndValue_fn s c)"

definition state1_fn :: "scanner \<Rightarrow> char \<Rightarrow> opcode \<times> scanner" where
  "state1_fn s c = (if isDigit c then continue state1 s else state0_fn s c)"

definition stateDot_fn :: "scanner \<Rightarrow> char \<Rightarrow> opcode \<times> scanner" where
  "stateDot_fn s c = (if isDigit c then continue stateDot0 s else scan_error s)"

definition stateDot0_fn :: "scanner \<Rightarrow> char \<Rightarrow> opcode \<times> scanner" where
  "stateDot0_fn s c =
     (if isDigit c then (scanContinue, s)
      else if c = CHR ''e'' \<or> c = CHR ''E'' then continue stateE s
      else stateEndValue_fn s c)"

definition stateESign_fn :: "scanner \<Rightarrow> char \<Rightarrow> opcode \<times> scanner" where
  "stateESign_fn s c = (if isDigit c then continue stateE0 s else scan_error s)"

definition stateE_fn :: "scanner \<Rightarrow> char \<Rightarrow> opcode \<times> scanner" where
  "stateE_fn s c =
     (if c = CHR ''+'' \<or> c = CHR ''-'' then continue stateESign s else stateESign_fn s c)"

definition stateE0_fn :: "scanner \<Rightarrow> char \<Rightarrow> opcode \<times> scanner" where
  "stateE0_fn s c = (if isDigit c then (scanContinue, s) else stateEndValue_fn s c)"

definition letterThen :: "char \<Rightarrow> stepState \<Rightarrow> scanner \<Rightarrow> char \<Rightarrow> opcode \<times> scanner" where
  "letterThen l st s c = (if c = l then continue st s else scan_error s)"

definition scan_step :: "scanner \<Rightarrow> char \<Rightarrow> opcode \<times> scanner" where
  "scan_step s c =
     (case scanStep s of
        stateBeginValue \<Rightarrow> stateBeginValue_fn s c
      | stateBeginValueOrEmpty \<Rightarrow> stateBeginValueOrEmpty_fn s c
      | stateBeginStringOrEmpty \<Rightarrow> stateBeginStringOrEmpty_fn s c
      | stateBeginString \<Rightarrow> stateBeginString_fn s c
      | stateEndValue \<Rightarrow> stateEndValue_fn s c
      | stateEndTop \<Rightarrow> stateEndTop_fn s c
      | stateInString \<Rightarrow> stateInString_fn s c
      | stateInStringEsc \<Rightarrow> stateInStringEsc_fn s c
      | stateInStringEscU \<Rightarrow> hexThen stateInStringEscU1 s c
      | stateInStringEscU1 \<Rightarrow> hexThen stateInStringEscU12 s c
      | stateInStringEscU12 \<Rightarrow> hexThen stateInStringEscU123 s c
      | stateInStringEscU123 \<Rightarrow> hexThen stateInString s c
      | stateNeg \<Rightarrow> stateNeg_fn s c
      | state1 \<Rightarrow> state1_fn s c
      | state0 \<Rightarrow> state0_fn s c
      | stateDot \<Rightarrow> stateDot_fn s c
      | stateDot0 \<Rightarrow> stateDot0_fn s c
      | stateE \<Rightarrow> stateE_fn s c
      | stateESign \<Rightarrow> stateESign_fn s c
      | stateE0 \<Rightarrow> stateE0_fn s c
      | stateT \<Rightarrow> letterThen (CHR ''r'') stateTr s c
      | stateTr \<Rightarrow> letterThen (CHR ''u'') stateTru s c
      | stateTru \<Rightarrow> letterThen (CHR ''e'') stateEndValue s c
      | stateF \<Rightarrow> letterThen (CHR ''a'') stateFa s c
      | stateFa \<Rightarrow> letterThen (CHR ''l'') stateFal s c
      | stateFal \<Rightarrow> letterThen (CHR ''s'') stateFals s c
      | stateFals \<Rightarrow> letterThen (CHR ''e'') stateEndValue s c
      | stateN \<Rightarrow> letterThen (CHR ''u'') stateNu s c
      | stateNu \<Rightarrow> letterThen (CHR ''l'') stateNul s c
      | stateNul \<Rightarrow> letterThen (CHR ''l'') stateEndValue s c
      | stateError \<Rightarrow> (scanError, s))"

subsection \<open>\<^verbatim>\<open>Decoder.readValue\<close>\<close>

text \<open>
  \<open>readLoop\<close> feeds the bytes to the scanner. The value ends before the byte that
  yields \<open>scanEnd\<close>, or right after the \<^verbatim>\<open>}\<close> or \<^verbatim>\<open>]\<close> that closes the top-level
  value (the decoder then asks \<^verbatim>\<open>stateEndValue\<close> with an invented space). At the end of the
  input the decoder feeds a space: the value is complete if that yields \<open>scanEnd\<close>;
  otherwise the error is \<^verbatim>\<open>io.ErrUnexpectedEOF\<close> when the input holds a byte that is
  not a space and \<^verbatim>\<open>io.EOF\<close> when it does not. The result is the number of bytes of
  the value, leading spaces included.
\<close>

datatype decodeError = EOF | ErrUnexpectedEOF | SyntaxError | UnmarshalTypeError string

datatype scanned = ValueEnd nat | ScanFailed | InputEnd scanner

fun readLoop :: "scanner \<Rightarrow> nat \<Rightarrow> string \<Rightarrow> scanned" where
  "readLoop s scanp [] = InputEnd s"
| "readLoop s scanp (c # buf) =
     (case scan_step s c of (op, s') \<Rightarrow>
        if op = scanEnd then ValueEnd scanp
        else if op = scanEndObject \<or> op = scanEndArray then
          (case stateEndValue_fn s' (CHR '' '') of (op', s'') \<Rightarrow>
             if op' = scanEnd then ValueEnd (Suc scanp) else readLoop s'' (Suc scanp) buf)
        else if op = scanError then ScanFailed
        else readLoop s' (Suc scanp) buf)"

definition nonSpace :: "string \<Rightarrow> bool" where
  "nonSpace b \<longleftrightarrow> (\<exists>c\<in>set b. \<not> isSpace c)"

definition readValue :: "string \<Rightarrow> decodeError + nat" where
  "readValue buf =
     (case readLoop reset 0 buf of
        ValueEnd n \<Rightarrow> Inr n
      | ScanFailed \<Rightarrow> Inl SyntaxError
      | InputEnd s \<Rightarrow>
          if fst (scan_step s (CHR '' '')) = scanEnd then Inr (length buf)
          else if nonSpace buf then Inl ErrUnexpectedEOF
          else Inl EOF)"

subsection \<open>Unquoting a string literal\<close>

text \<open>
  \<^verbatim>\<open>unquoteBytes\<close> turns a string literal, quotes included, into its bytes: escapes are
  replaced, an escape of four hexadecimal digits becomes the UTF-8 encoding of its rune (a pair of
  surrogates becomes one rune, a lone surrogate U+FFFD), and a byte sequence that is not
  valid UTF-8 is replaced by U+FFFD byte by byte. Runes are natural numbers.
  \<open>None\<close> is the library's \<^verbatim>\<open>ok = false\<close>.
\<close>

definition RuneError :: nat where
  "RuneError = 0xFFFD"

definition hexValue :: "char \<Rightarrow> nat option" where
  "hexValue c =
     (if isDigit c then Some (byte c - byte (CHR ''0''))
      else if byte (CHR ''a'') \<le> byte c \<and> byte c \<le> byte (CHR ''f'')
        then Some (byte c - byte (CHR ''a'') + 10)
      else if byte (CHR ''A'') \<le> byte c \<and> byte c \<le> byte (CHR ''F'')
        then Some (byte c - byte (CHR ''A'') + 10)
      else None)"

fun hexDigits :: "nat \<Rightarrow> string \<Rightarrow> nat option" where
  "hexDigits r [] = Some r"
| "hexDigits r (c # cs) =
     (case hexValue c of None \<Rightarrow> None | Some v \<Rightarrow> hexDigits (r * 16 + v) cs)"

definition getu4 :: "string \<Rightarrow> nat option" where
  "getu4 s =
     (if length s < 6 \<or> s ! 0 \<noteq> CHR 0x5C \<or> s ! 1 \<noteq> CHR ''u'' then None
      else hexDigits 0 (take 4 (drop 2 s)))"

definition IsSurrogate :: "nat \<Rightarrow> bool" where
  "IsSurrogate r \<longleftrightarrow> 0xD800 \<le> r \<and> r < 0xE000"

definition utf16_DecodeRune :: "nat \<Rightarrow> nat option \<Rightarrow> nat" where
  "utf16_DecodeRune r1 r2 =
     (case r2 of
        None \<Rightarrow> RuneError
      | Some r2 \<Rightarrow>
          if 0xD800 \<le> r1 \<and> r1 < 0xDC00 \<and> 0xDC00 \<le> r2 \<and> r2 < 0xE000
          then (r1 - 0xD800) * 1024 + (r2 - 0xDC00) + 0x10000
          else RuneError)"

definition EncodeRune :: "nat \<Rightarrow> string" where
  "EncodeRune r0 =
     (let r = (if r0 > 0x10FFFF \<or> IsSurrogate r0 then RuneError else r0)
      in if r \<le> 0x7F then [char_of r]
         else if r \<le> 0x7FF then [char_of (0xC0 + r div 64), char_of (0x80 + r mod 64)]
         else if r \<le> 0xFFFF then
           [char_of (0xE0 + r div 4096), char_of (0x80 + (r div 64) mod 64),
            char_of (0x80 + r mod 64)]
         else
           [char_of (0xF0 + r div 262144), char_of (0x80 + (r div 4096) mod 64),
            char_of (0x80 + (r div 64) mod 64), char_of (0x80 + r mod 64)])"

text \<open>The size of the sequence a first byte starts and the range of its second byte.\<close>

definition first :: "nat \<Rightarrow> (nat \<times> nat \<times> nat) option" where
  "first p0 =
     (if 0xC2 \<le> p0 \<and> p0 \<le> 0xDF then Some (2, 0x80, 0xBF)
      else if p0 = 0xE0 then Some (3, 0xA0, 0xBF)
      else if 0xE1 \<le> p0 \<and> p0 \<le> 0xEC then Some (3, 0x80, 0xBF)
      else if p0 = 0xED then Some (3, 0x80, 0x9F)
      else if 0xEE \<le> p0 \<and> p0 \<le> 0xEF then Some (3, 0x80, 0xBF)
      else if p0 = 0xF0 then Some (4, 0x90, 0xBF)
      else if 0xF1 \<le> p0 \<and> p0 \<le> 0xF3 then Some (4, 0x80, 0xBF)
      else if p0 = 0xF4 then Some (4, 0x80, 0x8F)
      else None)"

definition continuation :: "nat \<Rightarrow> bool" where
  "continuation b \<longleftrightarrow> 0x80 \<le> b \<and> b \<le> 0xBF"

definition DecodeRune :: "string \<Rightarrow> nat \<times> nat" where
  "DecodeRune p =
     (if length p < 1 then (RuneError, 0)
      else let p0 = byte (p ! 0) in
        if p0 < 0x80 then (p0, 1)
        else (case first p0 of
           None \<Rightarrow> (RuneError, 1)
         | Some (sz, lo, hi) \<Rightarrow>
             if length p < sz then (RuneError, 1)
             else let b1 = byte (p ! 1) in
               if b1 < lo \<or> hi < b1 then (RuneError, 1)
               else if sz \<le> 2 then ((p0 mod 32) * 64 + b1 mod 64, 2)
               else let b2 = byte (p ! 2) in
                 if \<not> continuation b2 then (RuneError, 1)
                 else if sz \<le> 3 then ((p0 mod 16) * 4096 + (b1 mod 64) * 64 + b2 mod 64, 3)
                 else let b3 = byte (p ! 3) in
                   if \<not> continuation b3 then (RuneError, 1)
                   else ((p0 mod 8) * 262144 + (b1 mod 64) * 4096 + (b2 mod 64) * 64
                           + b3 mod 64, 4)))"

lemma DecodeRune_size: "p \<noteq> [] \<Longrightarrow> 0 < snd (DecodeRune p)"
  by (auto simp: DecodeRune_def Let_def split: option.splits)

lemma getu4_length: "getu4 s = Some r \<Longrightarrow> 6 \<le> length s"
  by (auto simp: getu4_def split: if_splits)

definition simpleEscape :: "char \<Rightarrow> char option" where
  "simpleEscape e =
     (if e = CHR 0x22 \<or> e = CHR 0x5C \<or> e = CHR ''/'' \<or> e = CHR 0x27 then Some e
      else if e = CHR ''b'' then Some (CHR 0x08)
      else if e = CHR ''f'' then Some (CHR 0x0C)
      else if e = CHR ''n'' then Some (CHR 0x0A)
      else if e = CHR ''r'' then Some (CHR 0x0D)
      else if e = CHR ''t'' then Some (CHR 0x09)
      else None)"

function unquoteLoop :: "string \<Rightarrow> string option" where
  "unquoteLoop s =
     (case s of
        [] \<Rightarrow> Some []
      | c # rest \<Rightarrow>
          if c = CHR 0x5C then
            (case rest of
               [] \<Rightarrow> None
             | e # rest' \<Rightarrow>
                 if e = CHR ''u'' then
                   (case getu4 s of
                      None \<Rightarrow> None
                    | Some rr \<Rightarrow>
                        if IsSurrogate rr \<and>
                           utf16_DecodeRune rr (getu4 (drop 6 s)) \<noteq> RuneError
                        then map_option ((@) (EncodeRune (utf16_DecodeRune rr (getu4 (drop 6 s)))))
                               (unquoteLoop (drop 12 s))
                        else map_option ((@) (EncodeRune (if IsSurrogate rr then RuneError else rr)))
                               (unquoteLoop (drop 6 s)))
                 else (case simpleEscape e of
                         None \<Rightarrow> None
                       | Some b \<Rightarrow> map_option ((#) b) (unquoteLoop rest')))
          else if c = CHR 0x22 \<or> byte c < 0x20 then None
          else if byte c < 0x80 then map_option ((#) c) (unquoteLoop rest)
          else map_option ((@) (EncodeRune (fst (DecodeRune s))))
                 (unquoteLoop (drop (snd (DecodeRune s)) s)))"
  by pat_completeness auto
termination
proof (relation "measure length")
  show "wf (measure length)" by simp
next
  fix s :: string and c rest
  assume "s = c # rest"
  then have "0 < snd (DecodeRune s)" by (simp add: DecodeRune_size)
  with \<open>s = c # rest\<close> show "(drop (snd (DecodeRune s)) s, s) \<in> measure length"
    by simp
qed (auto dest: getu4_length)

definition unquoteBytes :: "string \<Rightarrow> string option" where
  "unquoteBytes s =
     (if length s < 2 \<or> s ! 0 \<noteq> CHR 0x22 \<or> s ! (length s - 1) \<noteq> CHR 0x22 then None
      else unquoteLoop (take (length s - 2) (drop 1 s)))"

subsection \<open>Decoding into the struct \<^verbatim>\<open>Request\<close>\<close>

text \<open>
  \<^verbatim>\<open>decodeState.object\<close> walks the bytes of the value with the scanner, reads each key
  and stores or skips each value. The model collects the members of the top-level object
  in one pass over the bytes (\<open>members\<close>): for each member the literal of its key and its
  value, which is a literal, an object or an array (whose content the decoder skips). A
  literal starts at the byte that yields \<open>scanBeginLiteral\<close> and ends before the next
  byte that does not yield \<open>scanContinue\<close>.

  The fields of \<^verbatim>\<open>Request\<close> are found by their exact names \<^verbatim>\<open>navIdent\<close>,
  \<^verbatim>\<open>appName\<close>, \<^verbatim>\<open>podName\<close> and otherwise by their case-folded names. The library folds
  a key rune by rune to the smallest rune of its case orbit; the three names hold neither
  \<^verbatim>\<open>k\<close> nor \<^verbatim>\<open>s\<close>, the only letters with a non-ASCII rune in their orbit, so a key
  matches a folded name exactly when it is ASCII and equal to the name up to the case of
  its letters (\<open>foldedEq\<close>).

  A string is stored in its field; \<^verbatim>\<open>null\<close> leaves the field as it is; any other value
  for one of the three fields records an \<^verbatim>\<open>UnmarshalTypeError\<close> (the first one is
  kept) and decoding goes on; a member with another key is ignored. \<open>None\<close>, and
  \<open>DecodePanic\<close>, stand for the panic of the library on bytes the scanner would not
  have accepted.
\<close>

record Request =
  NavIdent :: string
  AppName :: string
  PodName :: string

datatype 'a decoded = Decoded 'a | DecodeError decodeError | DecodePanic

datatype item = itemLiteral string | itemObject | itemArray

record collector =
  colScan :: scanner
  colLiteral :: "string option"
  colKey :: string
  colMembers :: "(string \<times> item) list"

definition endLiteral :: "collector \<Rightarrow> collector" where
  "endLiteral a =
     (case colLiteral a of
        None \<Rightarrow> a
      | Some l \<Rightarrow>
          if parseStack (colScan a) = [parseObjectKey]
          then a\<lparr>colKey := l, colLiteral := None\<rparr>
          else a\<lparr>colMembers := colMembers a @ [(colKey a, itemLiteral l)], colLiteral := None\<rparr>)"

definition collect :: "collector \<Rightarrow> char \<Rightarrow> collector" where
  "collect a c =
     (case scan_step (colScan a) c of (op, s') \<Rightarrow>
        let member = (length (parseStack (colScan a)) = 1);
            a1 = (if op = scanContinue
                  then (case colLiteral a of
                          None \<Rightarrow> a
                        | Some l \<Rightarrow> a\<lparr>colLiteral := Some (l @ [c])\<rparr>)
                  else endLiteral a);
            a2 = (if op = scanBeginLiteral \<and> member then a1\<lparr>colLiteral := Some [c]\<rparr>
                  else if op = scanBeginObject \<and> member
                    then a1\<lparr>colMembers := colMembers a1 @ [(colKey a1, itemObject)]\<rparr>
                  else if op = scanBeginArray \<and> member
                    then a1\<lparr>colMembers := colMembers a1 @ [(colKey a1, itemArray)]\<rparr>
                  else a1)
        in a2\<lparr>colScan := s'\<rparr>)"

definition members :: "string \<Rightarrow> (string \<times> item) list" where
  "members data =
     colMembers (foldl collect
       \<lparr>colScan = reset, colLiteral = None, colKey = [], colMembers = []\<rparr> data)"

datatype structField = fieldNavIdent | fieldAppName | fieldPodName

definition toUpper :: "char \<Rightarrow> char" where
  "toUpper c =
     (if byte (CHR ''a'') \<le> byte c \<and> byte c \<le> byte (CHR ''z'')
      then char_of (byte c - 32) else c)"

definition foldedEq :: "string \<Rightarrow> string \<Rightarrow> bool" where
  "foldedEq key name \<longleftrightarrow> (\<forall>c\<in>set key. byte c < 0x80) \<and> map toUpper key = map toUpper name"

definition byExactName :: "string \<Rightarrow> structField option" where
  "byExactName key =
     (if key = ''navIdent'' then Some fieldNavIdent
      else if key = ''appName'' then Some fieldAppName
      else if key = ''podName'' then Some fieldPodName
      else None)"

definition byFoldedName :: "string \<Rightarrow> structField option" where
  "byFoldedName key =
     (if foldedEq key ''navIdent'' then Some fieldNavIdent
      else if foldedEq key ''appName'' then Some fieldAppName
      else if foldedEq key ''podName'' then Some fieldPodName
      else None)"

definition findField :: "string \<Rightarrow> structField option" where
  "findField key = (case byExactName key of Some f \<Rightarrow> Some f | None \<Rightarrow> byFoldedName key)"

definition setField :: "structField \<Rightarrow> string \<Rightarrow> Request \<Rightarrow> Request" where
  "setField f v req =
     (case f of
        fieldNavIdent \<Rightarrow> req\<lparr>NavIdent := v\<rparr>
      | fieldAppName \<Rightarrow> req\<lparr>AppName := v\<rparr>
      | fieldPodName \<Rightarrow> req\<lparr>PodName := v\<rparr>)"

record decodeState =
  target :: Request
  savedError :: "decodeError option"

definition saveError :: "decodeError \<Rightarrow> decodeState \<Rightarrow> decodeState" where
  "saveError e d = (if savedError d = None then d\<lparr>savedError := Some e\<rparr> else d)"

definition literalStore :: "string \<Rightarrow> structField \<Rightarrow> decodeState \<Rightarrow> decodeState option" where
  "literalStore lit f d =
     (case lit of
        [] \<Rightarrow> None
      | c # _ \<Rightarrow>
          if c = CHR ''n'' then Some d
          else if c = CHR ''t'' \<or> c = CHR ''f'' then Some (saveError (UnmarshalTypeError ''bool'') d)
          else if c = CHR 0x22 then
            (case unquoteBytes lit of
               None \<Rightarrow> None
             | Some v \<Rightarrow> Some (d\<lparr>target := setField f v (target d)\<rparr>))
          else Some (saveError (UnmarshalTypeError ''number'') d))"

definition store :: "decodeState \<Rightarrow> string \<times> item \<Rightarrow> decodeState option" where
  "store d m =
     (case unquoteBytes (fst m) of
        None \<Rightarrow> None
      | Some key \<Rightarrow>
          (case findField key of
             None \<Rightarrow> Some d
           | Some f \<Rightarrow>
               (case snd m of
                  itemLiteral lit \<Rightarrow> literalStore lit f d
                | itemObject \<Rightarrow> Some (saveError (UnmarshalTypeError ''object'') d)
                | itemArray \<Rightarrow> Some (saveError (UnmarshalTypeError ''array'') d))))"

fun object :: "decodeState \<Rightarrow> (string \<times> item) list \<Rightarrow> decodeState option" where
  "object d [] = Some d"
| "object d (m # ms) = (case store d m of None \<Rightarrow> None | Some d' \<Rightarrow> object d' ms)"

definition unmarshal :: "string \<Rightarrow> Request \<Rightarrow> Request decoded" where
  "unmarshal data req =
     (case dropWhile isSpace data of
        [] \<Rightarrow> DecodePanic
      | c # _ \<Rightarrow>
          if c = CHR ''{'' then
            (case object \<lparr>target = req, savedError = None\<rparr> (members data) of
               None \<Rightarrow> DecodePanic
             | Some d \<Rightarrow>
                 (case savedError d of None \<Rightarrow> Decoded (target d) | Some e \<Rightarrow> DecodeError e))
          else if c = CHR ''['' then DecodeError (UnmarshalTypeError ''array'')
          else if c = CHR ''n'' then Decoded req
          else if c = CHR ''t'' \<or> c = CHR ''f'' then DecodeError (UnmarshalTypeError ''bool'')
          else if c = CHR 0x22 then DecodeError (UnmarshalTypeError ''string'')
          else DecodeError (UnmarshalTypeError ''number''))"

definition Decode :: "string \<Rightarrow> Request decoded" where
  "Decode body =
     (case readValue body of
        Inl e \<Rightarrow> DecodeError e
      | Inr n \<Rightarrow> unmarshal (take n body) \<lparr>NavIdent = [], AppName = [], PodName = []\<rparr>)"

subsection \<open>Notions for the properties of the decoder\<close>







section \<open>Packages env and nais: the configuration\<close>

text \<open>
  The package-level variables read by the registry and the handler: the allow-list
  \<^verbatim>\<open>nais.InboundApps\<close> and the three Unleash settings of package \<^verbatim>\<open>env\<close>. They are
  set when the process starts and never written afterwards.
\<close>

record config =
  InboundApps :: "string list"
  UnleashServerAPIURL :: string
  UnleashServerAPIToken :: string
  UnleashServerAPIEnv :: string

text \<open>
  \<^verbatim>\<open>nais.init\<close> keeps the non-empty application names of the inbound rules, in their
  order, and panics (\<open>None\<close>) when none is left.
\<close>

definition nais_init :: "string list \<Rightarrow> string list option" where
  "nais_init rules =
     (let apps = filter (\<lambda>application. application \<noteq> []) rules
      in if length apps = 0 then None else Some apps)"

definition url :: "config \<Rightarrow> string" where
  "url cfg = UnleashServerAPIURL cfg @ ''/api''"

section \<open>The Unleash SDK, as the registry and the handler use it\<close>

text \<open>
  The SDK is outside the repository; the model takes it as a parameter. A client is a
  value of the type variable \<open>'c\<close>.
  \<^item> \<open>NewClient sdk i opts\<close> is the outcome of the \<open>i\<close>-th construction started by
    \<^verbatim>\<open>Initialize\<close>, called with the options \<open>opts\<close>: an error (its message) or a client.
  \<^item> \<open>WaitForReady sdk c\<close> tells whether \<^verbatim>\<open>c.WaitForReady()\<close> returns; when it is false
    the call blocks for ever.
  \<^item> \<open>IsEnabled sdk c feature ctx\<close> is the decision of \<^verbatim>\<open>c.IsEnabled(feature,
    unleash.WithContext(ctx))\<close>.
\<close>

record options =
  optListener :: string
  optAppName :: string
  optUrl :: string
  optCustomHeaders :: "(string \<times> string list) list"

record unleash_context =
  Environment :: string
  UserId :: string
  ctxAppName :: string
  RemoteAddress :: string
  Properties :: "(string \<times> string) list"

record 'c sdk =
  NewClient :: "nat \<Rightarrow> options \<Rightarrow> string + 'c"
  WaitForReady :: "'c \<Rightarrow> bool"
  IsEnabled :: "'c \<Rightarrow> string \<Rightarrow> unleash_context \<Rightarrow> bool"

section \<open>Package clients: the registry\<close>

text \<open>
  The package-level state: the map from application name to client and the atomic
  flag \<^verbatim>\<open>ready\<close>. The mutex \<^verbatim>\<open>mu\<close> makes each access to the map one atomic step, which
  is how the accesses are modelled. \<open>closedClients\<close> records the clients on which
  \<^verbatim>\<open>Close()\<close> has been called.
\<close>

record 'c registry =
  clientMap :: "string \<rightharpoonup> 'c"
  ready :: bool
  closedClients :: "'c set"

definition Ready :: "'c registry \<Rightarrow> bool" where
  "Ready r = ready r"

definition Get :: "'c registry \<Rightarrow> string \<Rightarrow> 'c option \<times> bool" where
  "Get r appName = (clientMap r appName, clientMap r appName \<noteq> None)"

definition Close :: "'c registry \<Rightarrow> 'c registry" where
  "Close r = r\<lparr>closedClients := closedClients r \<union> ran (clientMap r), clientMap := Map.empty\<rparr>"

definition IsValidApp :: "config \<Rightarrow> string \<Rightarrow> bool" where
  "IsValidApp cfg appName \<longleftrightarrow> appName \<in> set (InboundApps cfg)"

subsection \<open>\<^verbatim>\<open>Initialize\<close>\<close>

text \<open>
  \<^verbatim>\<open>strings.Join\<close>, and the two error messages of \<^verbatim>\<open>Initialize\<close>: \<^verbatim>\<open>%v\<close> prints a
  slice of errors as its messages, separated by spaces, in square brackets.
\<close>

fun Join :: "string list \<Rightarrow> string \<Rightarrow> string" where
  "Join [] sep = []"
| "Join [x] sep = x"
| "Join (x # y # ys) sep = x @ sep @ Join (y # ys) sep"

definition createError :: "string \<Rightarrow> string \<Rightarrow> string" where
  "createError app err = ''failed to create Unleash client for '' @ app @ '': '' @ err"

definition initializeError :: "string list \<Rightarrow> string" where
  "initializeError errs =
     ''failed to initialize some Unleash clients: '' @ ''['' @ Join errs '' '' @ '']''"

definition clientOptions :: "config \<Rightarrow> string \<Rightarrow> options" where
  "clientOptions cfg app =
     \<lparr>optListener = app, optAppName = app, optUrl = url cfg,
      optCustomHeaders = [(''Authorization'', [UnleashServerAPIToken cfg])]\<rparr>"

text \<open>
  \<^verbatim>\<open>Initialize\<close> starts one goroutine for each entry of the allow-list and waits for
  all of them. The goroutines run concurrently with each other, with \<^verbatim>\<open>Initialize\<close>
  itself and with the requests the server already accepts, so the function is modelled
  by the steps its threads take, run in the order a schedule gives.

  A goroutine carries its argument \<^verbatim>\<open>app\<close> and the point it has reached:
  \<^item> \<open>Spawned\<close>: started, before \<^verbatim>\<open>unleash.NewClient\<close>;
  \<^item> \<open>Sending e\<close>: the construction failed, before \<^verbatim>\<open>errChan <- e\<close>;
  \<^item> \<open>Waiting c\<close>: in \<^verbatim>\<open>c.WaitForReady()\<close>;
  \<^item> \<open>Inserting c\<close>: before the locked \<^verbatim>\<open>clientMap[app] = c\<close>;
  \<^item> \<open>Exiting\<close>: before the deferred \<^verbatim>\<open>wg.Done()\<close>;
  \<^item> \<open>Finished\<close>.
  \<^verbatim>\<open>Initialize\<close> itself is in its loop, with the entries still to start
  (\<open>Spawning\<close>), in \<^verbatim>\<open>wg.Wait()\<close> (\<open>WgWait\<close>), or has returned, with
  \<open>None\<close> for \<^verbatim>\<open>nil\<close> (\<open>Returned\<close>).
\<close>

datatype 'c point = Spawned | Sending string | Waiting 'c | Inserting 'c | Exiting | Finished

datatype control = Spawning "string list" | WgWait | Returned "string option"

record 'c system =
  registry :: "'c registry"
  goroutines :: "(string \<times> 'c point) list"
  wg :: nat
  errChan :: "string list"
  initialize :: control

definition start :: "config \<Rightarrow> 'c system" where
  "start cfg =
     \<lparr>registry = \<lparr>clientMap = Map.empty, ready = False, closedClients = {}\<rparr>,
      goroutines = [], wg = 0, errChan = [], initialize = Spawning (InboundApps cfg)\<rparr>"

text \<open>
  One step of \<^verbatim>\<open>Initialize\<close>: an iteration of the loop (\<^verbatim>\<open>wg.Add(1)\<close> and the
  \<^verbatim>\<open>go\<close> statement); leaving the loop; or, once the counter of the wait group is zero,
  everything after \<^verbatim>\<open>wg.Wait()\<close>. While the counter is positive, \<^verbatim>\<open>wg.Wait()\<close> blocks:
  the step changes nothing.
\<close>

definition Initialize_step :: "config \<Rightarrow> 'c system \<Rightarrow> 'c system" where
  "Initialize_step cfg s =
     (case initialize s of
        Spawning [] \<Rightarrow> s\<lparr>initialize := WgWait\<rparr>
      | Spawning (appName # rest) \<Rightarrow>
          s\<lparr>wg := wg s + 1, goroutines := goroutines s @ [(appName, Spawned)],
            initialize := Spawning rest\<rparr>
      | WgWait \<Rightarrow>
          if wg s = 0 then
            (let errs = errChan s
             in if length errs > 0 then s\<lparr>initialize := Returned (Some (initializeError errs))\<rparr>
                else s\<lparr>registry := (registry s)\<lparr>ready := True\<rparr>, initialize := Returned None\<rparr>)
          else s
      | Returned r \<Rightarrow> s)"

text \<open>
  One step of the \<open>i\<close>-th goroutine. The channel \<^verbatim>\<open>errChan\<close> has room for
  \<^verbatim>\<open>len(nais.InboundApps)\<close> errors; a send on a full channel blocks.
\<close>

definition setPoint :: "nat \<Rightarrow> 'c point \<Rightarrow> 'c system \<Rightarrow> 'c system" where
  "setPoint i p s = s\<lparr>goroutines := (goroutines s)[i := (fst (goroutines s ! i), p)]\<rparr>"

definition goroutine_step :: "config \<Rightarrow> 'c sdk \<Rightarrow> nat \<Rightarrow> 'c system \<Rightarrow> 'c system" where
  "goroutine_step cfg sdk i s =
     (if i < length (goroutines s) then
        (case goroutines s ! i of
           (app, Spawned) \<Rightarrow>
             (case NewClient sdk i (clientOptions cfg app) of
                Inl err \<Rightarrow> setPoint i (Sending (createError app err)) s
              | Inr client \<Rightarrow> setPoint i (Waiting client) s)
         | (app, Sending e) \<Rightarrow>
             if length (errChan s) < length (InboundApps cfg)
             then setPoint i Exiting (s\<lparr>errChan := errChan s @ [e]\<rparr>)
             else s
         | (app, Waiting client) \<Rightarrow>
             if WaitForReady sdk client then setPoint i (Inserting client) s else s
         | (app, Inserting client) \<Rightarrow>
             setPoint i Exiting
               (s\<lparr>registry := (registry s)\<lparr>clientMap := (clientMap (registry s))(app \<mapsto> client)\<rparr>\<rparr>)
         | (app, Exiting) \<Rightarrow> setPoint i Finished (s\<lparr>wg := wg s - 1\<rparr>)
         | (app, Finished) \<Rightarrow> s)
      else s)"

text \<open>
  The schedule: which thread takes the next step. Besides \<^verbatim>\<open>Initialize\<close> and its
  goroutines these are the other calls into the package, each one atomic step.
\<close>

datatype action =
  InitializeStep | GoroutineStep nat | CallGet string | CallReady | CallIsValidApp string | CallClose

fun step :: "config \<Rightarrow> 'c sdk \<Rightarrow> 'c system \<Rightarrow> action \<Rightarrow> 'c system" where
  "step cfg sdk s InitializeStep = Initialize_step cfg s"
| "step cfg sdk s (GoroutineStep i) = goroutine_step cfg sdk i s"
| "step cfg sdk s (CallGet appName) = s"
| "step cfg sdk s CallReady = s"
| "step cfg sdk s (CallIsValidApp appName) = s"
| "step cfg sdk s CallClose = s\<lparr>registry := Close (registry s)\<rparr>"

definition run :: "config \<Rightarrow> 'c sdk \<Rightarrow> action list \<Rightarrow> 'c system \<Rightarrow> 'c system" where
  "run cfg sdk schedule s = foldl (step cfg sdk) s schedule"

subsection \<open>The outcome of the constructions\<close>

text \<open>
  \<open>failure cfg sdk (i, app)\<close> is the error the \<open>i\<close>-th goroutine, started for \<open>app\<close>,
  sends when its construction fails, and \<open>failures\<close> lists these errors for the whole
  allow-list, in its order: each names the application and the cause.
\<close>

definition failure :: "config \<Rightarrow> 'c sdk \<Rightarrow> nat \<times> string \<Rightarrow> string list" where
  "failure cfg sdk = (\<lambda>(i, app).
     case NewClient sdk i (clientOptions cfg app) of Inl err \<Rightarrow> [createError app err] | Inr client \<Rightarrow> [])"

definition failures :: "config \<Rightarrow> 'c sdk \<Rightarrow> string list" where
  "failures cfg sdk = concat (map (failure cfg sdk) (enumerate 0 (InboundApps cfg)))"

subsection \<open>Invariants of the reachable states\<close>

text \<open>
  What holds in every state a schedule reaches from \<open>start\<close>: the goroutines are
  those of the allow-list entries already taken by the loop; the counter of the wait group
  counts the goroutines that have not finished; each goroutine is at a point its
  construction allows; the channel holds the errors of the goroutines that are past their
  send; the flag is set exactly when \<^verbatim>\<open>Initialize\<close> has returned \<^verbatim>\<open>nil\<close>; and the keys of
  the map are allow-listed. \<open>inserted\<close> holds as long as \<^verbatim>\<open>Close\<close> has not run: a
  goroutine whose construction succeeded and that is past its insertion has an entry.
\<close>

definition sent :: "config \<Rightarrow> 'c sdk \<Rightarrow> nat \<times> string \<times> 'c point \<Rightarrow> string list" where
  "sent cfg sdk = (\<lambda>(i, app, p).
     if p = Exiting \<or> p = Finished then failure cfg sdk (i, app) else [])"

definition completed :: "config \<Rightarrow> 'c sdk \<Rightarrow> nat \<Rightarrow> string \<Rightarrow> bool" where
  "completed cfg sdk i app =
     (case NewClient sdk i (clientOptions cfg app) of Inl err \<Rightarrow> True | Inr c \<Rightarrow> WaitForReady sdk c)"

fun point_ok :: "config \<Rightarrow> 'c sdk \<Rightarrow> nat \<Rightarrow> string \<times> 'c point \<Rightarrow> bool" where
  "point_ok cfg sdk i (app, Spawned) = True"
| "point_ok cfg sdk i (app, Sending e) =
     (\<exists>err. NewClient sdk i (clientOptions cfg app) = Inl err \<and> e = createError app err)"
| "point_ok cfg sdk i (app, Waiting c) = (NewClient sdk i (clientOptions cfg app) = Inr c)"
| "point_ok cfg sdk i (app, Inserting c) =
     (NewClient sdk i (clientOptions cfg app) = Inr c \<and> WaitForReady sdk c)"
| "point_ok cfg sdk i (app, Exiting) = completed cfg sdk i app"
| "point_ok cfg sdk i (app, Finished) = completed cfg sdk i app"

definition shape :: "config \<Rightarrow> 'c system \<Rightarrow> bool" where
  "shape cfg s =
     (case initialize s of
        Spawning rest \<Rightarrow> map fst (goroutines s) @ rest = InboundApps cfg
      | WgWait \<Rightarrow> map fst (goroutines s) = InboundApps cfg
      | Returned r \<Rightarrow> map fst (goroutines s) = InboundApps cfg \<and> wg s = 0 \<and>
          r = (if errChan s = [] then None else Some (initializeError (errChan s))))"

definition inv :: "config \<Rightarrow> 'c sdk \<Rightarrow> 'c system \<Rightarrow> bool" where
  "inv cfg sdk s \<longleftrightarrow>
     shape cfg s \<and>
     wg s = length (filter (\<lambda>g. snd g \<noteq> Finished) (goroutines s)) \<and>
     (\<forall>i<length (goroutines s). point_ok cfg sdk i (goroutines s ! i)) \<and>
     mset (errChan s) = mset (concat (map (sent cfg sdk) (enumerate 0 (goroutines s)))) \<and>
     (ready (registry s) \<longleftrightarrow> initialize s = Returned None) \<and>
     dom (clientMap (registry s)) \<subseteq> set (InboundApps cfg)"

definition inserted :: "config \<Rightarrow> 'c sdk \<Rightarrow> 'c system \<Rightarrow> bool" where
  "inserted cfg sdk s \<longleftrightarrow>
     (\<forall>i<length (goroutines s). \<forall>c.
        (snd (goroutines s ! i) = Exiting \<or> snd (goroutines s ! i) = Finished) \<and>
        NewClient sdk i (clientOptions cfg (fst (goroutines s ! i))) = Inr c \<longrightarrow>
        clientMap (registry s) (fst (goroutines s ! i)) \<noteq> None)"

section \<open>Package feature: the handler\<close>

text \<open>
  The request as the handler reads it: the method, \<^verbatim>\<open>r.URL.Path\<close>, the bytes of the
  body and \<^verbatim>\<open>r.RemoteAddr\<close>. The response: the status code, the headers the handler
  sets and the body.
\<close>

record http_request =
  Method :: string
  Path :: string
  Body :: string
  RemoteAddr :: string

record response =
  statusCode :: nat
  responseHeader :: "(string \<times> string) list"
  responseBody :: string

text \<open>
  The calls the handler makes into the registry and the SDK are recorded, in their
  order. \<open>reply\<close> is \<open>None\<close> when the handler panics before it writes a response.
\<close>

datatype 'c call = ClientsGet string | ClientIsEnabled 'c string unleash_context

record 'c handled =
  reply :: "response option"
  calls :: "'c call list"

definition PathPrefix :: string where
  "PathPrefix = ''/features/''"

definition StatusOK :: nat where
  "StatusOK = 200"

definition StatusBadRequest :: nat where
  "StatusBadRequest = 400"

definition StatusMethodNotAllowed :: nat where
  "StatusMethodNotAllowed = 405"

definition TrimPrefix :: "string \<Rightarrow> string \<Rightarrow> string" where
  "TrimPrefix s prefix =
     (if take (length prefix) s = prefix then drop (length prefix) s else s)"

text \<open>
  \<^verbatim>\<open>http.Error\<close> replies with the message and a newline as plain text;
  \<^verbatim>\<open>json.NewEncoder(w).Encode\<close> writes the object and a newline.
\<close>

definition http_Error :: "string \<Rightarrow> nat \<Rightarrow> response" where
  "http_Error msg code =
     \<lparr>statusCode = code,
      responseHeader = [(''Content-Type'', ''text/plain; charset=utf-8''),
                (''X-Content-Type-Options'', ''nosniff'')],
      responseBody = msg @ [CHR 0x0A]\<rparr>"

definition encodeResponse :: "bool \<Rightarrow> string" where
  "encodeResponse enabled =
     [CHR ''{'', CHR 0x22] @ ''enabled'' @ [CHR 0x22, CHR '':''] @
     (if enabled then ''true'' else ''false'') @ [CHR ''}'', CHR 0x0A]"

definition invalidNameMessage :: string where
  "invalidNameMessage =
     ''Invalid feature name: must be URL-friendly, 1-100 characters, and not '' @
     [CHR 0x27] @ ''.'' @ [CHR 0x27] @ '' or '' @ [CHR 0x27] @ ''..'' @ [CHR 0x27]"

definition missingAppNameMessage :: "config \<Rightarrow> string" where
  "missingAppNameMessage cfg =
     ''app_name is required in request body, must be one of the allowed inbound applications: '' @
     Join (InboundApps cfg) '', ''"

definition unknownAppNameMessage :: "config \<Rightarrow> string" where
  "unknownAppNameMessage cfg =
     ''Unknown app_name: must be one of the allowed inbound applications: '' @
     Join (InboundApps cfg) '', ''"

definition unleashCtx :: "config \<Rightarrow> http_request \<Rightarrow> Request \<Rightarrow> unleash_context" where
  "unleashCtx cfg r req =
     \<lparr>Environment = UnleashServerAPIEnv cfg, UserId = NavIdent req, ctxAppName = AppName req,
      RemoteAddress = RemoteAddr r, Properties = [(''podName'', PodName req)]\<rparr>"

definition failed :: "string \<Rightarrow> nat \<Rightarrow> 'c call list \<Rightarrow> 'c handled" where
  "failed msg code cs = \<lparr>reply = Some (http_Error msg code), calls = cs\<rparr>"

definition Handler :: "config \<Rightarrow> 'c sdk \<Rightarrow> 'c registry \<Rightarrow> http_request \<Rightarrow> 'c handled" where
  "Handler cfg sdk reg r =
     (if Method r \<noteq> ''POST'' \<and> Method r \<noteq> ''QUERY''
      then failed ''Method not allowed'' StatusMethodNotAllowed []
      else let featureName = TrimPrefix (Path r) PathPrefix in
        if featureName = [] then failed ''Feature name is required'' StatusBadRequest []
        else if \<not> IsValidName featureName then failed invalidNameMessage StatusBadRequest []
        else (case Decode (Body r) of
           DecodePanic \<Rightarrow> \<lparr>reply = None, calls = []\<rparr>
         | DecodeError err \<Rightarrow> failed ''Invalid JSON body'' StatusBadRequest []
         | Decoded req \<Rightarrow>
             if AppName req = [] then failed (missingAppNameMessage cfg) StatusBadRequest []
             else (case Get reg (AppName req) of (client, ok) \<Rightarrow>
               if \<not> ok
               then failed (unknownAppNameMessage cfg) StatusBadRequest [ClientsGet (AppName req)]
               else (case client of
                  None \<Rightarrow> \<lparr>reply = None, calls = [ClientsGet (AppName req)]\<rparr>
                | Some c \<Rightarrow>
                    let enabled = IsEnabled sdk c featureName (unleashCtx cfg r req)
                    in \<lparr>reply = Some \<lparr>statusCode = StatusOK,
                                        responseHeader = [(''Content-Type'', ''application/json'')],
                                        responseBody = encodeResponse enabled\<rparr>,
                        calls = [ClientsGet (AppName req),
                                 ClientIsEnabled c featureName (unleashCtx cfg r req)]\<rparr>))))"

section \<open>Package main: the mux\<close>

text \<open>
  \<^verbatim>\<open>main\<close> registers four patterns on a \<^verbatim>\<open>http.ServeMux\<close> and serves every request
  through it (the logging and tracing middleware pass the request on unchanged). The mux
  is modelled from Go's \<^verbatim>\<open>net/http\<close>: besides the fields the feature handler reads, it
  reads \<^verbatim>\<open>r.RequestURI\<close>, the protocol version and \<^verbatim>\<open>r.URL.RawPath\<close>, which
  \<^verbatim>\<open>URL.setPath\<close> fills from the path of the request line together with \<^verbatim>\<open>r.URL.Path\<close>.
\<close>

subsection \<open>The library: \<^verbatim>\<open>URL.EscapedPath\<close>\<close>











subsection \<open>The library: \<^verbatim>\<open>path.Clean\<close> and \<^verbatim>\<open>cleanPath\<close>\<close>









subsection \<open>The library: the routing tree of \<^verbatim>\<open>http.ServeMux\<close>\<close>












subsection \<open>The mux that \<^verbatim>\<open>main\<close> builds\<close>













definition plain :: "nat \<Rightarrow> string \<Rightarrow> 'c handled" where
  "plain code text =
     \<lparr>reply = Some \<lparr>statusCode = code, responseHeader = [(''Content-Type'', ''text/plain'')],
                     responseBody = text\<rparr>,
      calls = []\<rparr>"



section \<open>Example configurations\<close>

text \<open>
  An allow-list of two applications; an SDK whose clients are named by their application
  and whose constructions all succeed; one whose second construction fails; one whose
  second client never becomes ready; and a schedule that interleaves the two goroutines
  with \<^verbatim>\<open>Initialize\<close> and a request.
\<close>

definition exampleConfig :: config where
  "exampleConfig =
     \<lparr>InboundApps = [''app1'', ''app2''], UnleashServerAPIURL = ''http://unleash'',
      UnleashServerAPIToken = ''token'', UnleashServerAPIEnv = ''dev''\<rparr>"

definition exampleSdk :: "string sdk" where
  "exampleSdk =
     \<lparr>NewClient = (\<lambda>i opts. Inr (optAppName opts)), WaitForReady = (\<lambda>c. True),
      IsEnabled = (\<lambda>c feature ctx. c = ''app1'' \<and> feature = ''my-flag'' \<and> UserId ctx = ''U1'')\<rparr>"

definition failingSdk :: "string sdk" where
  "failingSdk = exampleSdk\<lparr>NewClient :=
     (\<lambda>i opts. if i = 1 then Inl ''no url'' else Inr (optAppName opts))\<rparr>"

definition hangingSdk :: "string sdk" where
  "hangingSdk = exampleSdk\<lparr>WaitForReady := (\<lambda>c. c \<noteq> ''app2'')\<rparr>"

definition exampleSchedule :: "action list" where
  "exampleSchedule =
     [InitializeStep, GoroutineStep 0, InitializeStep, InitializeStep, GoroutineStep 1,
      InitializeStep, GoroutineStep 1, GoroutineStep 0, GoroutineStep 0, CallGet ''app1'',
      GoroutineStep 1, GoroutineStep 1, GoroutineStep 0, InitializeStep]"

text \<open>
  A request of the first application for the flag \<^verbatim>\<open>my-flag\<close>; the registry after a
  successful start; and the registry at the moment the first client has been inserted and
  the second has not.
\<close>

definition exampleRequest :: http_request where
  \<open>exampleRequest =
     \<lparr>Method = ''POST'', Path = ''/features/my-flag'',
      Body = ''{"appName":"app1","navIdent":"U1"}'', RemoteAddr = ''10.0.0.1:4711''\<rparr>\<close>

definition exampleRegistry :: "string registry" where
  "exampleRegistry =
     \<lparr>clientMap = [''app1'' \<mapsto> ''app1'', ''app2'' \<mapsto> ''app2''], ready = True,
      closedClients = {}\<rparr>"

definition startingRegistry :: "string registry" where
  "startingRegistry =
     registry (run exampleConfig exampleSdk (take 9 exampleSchedule) (start exampleConfig))"




section \<open>Properties of the feature-name validation\<close>

lemma length_escapeByte:
  "length (escapeByte c) = (if shouldEscape c then 3 else 1)"
  by (simp add: escapeByte_def)

lemma length_concat_escapeByte:
  "length (concat (map escapeByte s)) = length s + 2 * length (filter shouldEscape s)"
  by (induction s) (simp_all add: length_escapeByte)

lemma escape_fixed_iff: "escape s = s \<longleftrightarrow> (\<forall>c\<in>set s. \<not> shouldEscape c)"
proof (cases "filter shouldEscape s = []")
  case True
  then show ?thesis
    by (simp add: escape_def filter_empty_conv)
next
  case False
  then have pos: "0 < length (filter shouldEscape s)"
    by simp
  have "length (escape s) = length s + 2 * length (filter shouldEscape s)"
    using False by (simp add: escape_def length_concat_escapeByte)
  with pos have "escape s \<noteq> s"
    by (metis add_cancel_right_right less_numeral_extra(3) mult_eq_0_iff zero_neq_numeral)
  moreover from False have "\<not> (\<forall>c\<in>set s. \<not> shouldEscape c)"
    by (simp add: filter_empty_conv)
  ultimately show ?thesis
    by simp
qed

lemma PathEscape_single: "PathEscape [c] \<noteq> [c] \<longleftrightarrow> shouldEscape c"
  using escape_fixed_iff [of "[c]"] by (simp add: PathEscape_def)

text \<open>
  Claim C2. \<open>IsValidName\<close> is false for every name of length 0, of length at least 101,
  equal to \<^verbatim>\<open>.\<close> or \<^verbatim>\<open>..\<close>, or holding a byte that single-path-segment
  percent-encoding changes; it is true for every other name, that is for the names of
  length 1 to 100 that the encoding leaves as they are.
\<close>

theorem IsValidName_iff:
  "IsValidName name \<longleftrightarrow>
     \<not> (length name = 0 \<or> 101 \<le> length name \<or> name = ''.'' \<or> name = ''..'' \<or>
        (\<exists>c\<in>set name. PathEscape [c] \<noteq> [c]))"
proof -
  have "PathEscape name = name \<longleftrightarrow> \<not> (\<exists>c\<in>set name. PathEscape [c] \<noteq> [c])"
    unfolding PathEscape_single by (simp add: PathEscape_def escape_fixed_iff)
  then show ?thesis
    unfolding IsValidName_def Let_def by auto
qed

theorem IsValidName_iff_witness:
  "IsValidName ''my-flag'' \<and> \<not> IsValidName ''../etc''"
  using IsValidName_iff [of "''my-flag''"] IsValidName_iff [of "''../etc''"]
  by (simp add: PathEscape_def escape_def escapeByte_def shouldEscape_def isAlnum_def
      byte_def)

section \<open>Properties of the registry\<close>

lemma inv_start: "inv cfg sdk (start cfg)"
  by (simp add: inv_def start_def shape_def)

lemma count_update:
  "i < length xs \<Longrightarrow>
   length (filter P (xs[i := y])) + (if P (xs ! i) then 1 else 0) =
   length (filter P xs) + (if P y then 1 else 0)"
proof (induction xs arbitrary: i)
  case Nil
  then show ?case by simp
next
  case (Cons x xs)
  show ?case
  proof (cases i)
    case 0
    then show ?thesis by simp
  next
    case (Suc j)
    with Cons.prems have "j < length xs" by simp
    from Cons.IH [OF this] Suc show ?thesis by simp
  qed
qed

lemma sent_update:
  "i < length xs \<Longrightarrow>
   mset (concat (map f (enumerate n (xs[i := y])))) + mset (f (n + i, xs ! i)) =
   mset (concat (map f (enumerate n xs))) + mset (f (n + i, y))"
proof (induction xs arbitrary: i n)
  case Nil
  then show ?case by simp
next
  case (Cons x xs)
  show ?case
  proof (cases i)
    case 0
    then show ?thesis by simp
  next
    case (Suc j)
    with Cons.prems have "j < length xs" by simp
    from Cons.IH [OF this, of "Suc n"] Suc show ?thesis by simp
  qed
qed

lemma sent_append:
  "concat (map f (enumerate n (xs @ [y]))) = concat (map f (enumerate n xs)) @ f (n + length xs, y)"
  by (induction xs arbitrary: n) simp_all

lemma all_finished:
  "length (filter (\<lambda>g. snd g \<noteq> Finished) gs) = 0 \<longleftrightarrow> (\<forall>g\<in>set gs. snd g = Finished)"
  by (simp add: filter_empty_conv)

lemma sent_all_finished:
  "\<forall>g\<in>set gs. snd g = Finished \<Longrightarrow>
   concat (map (sent cfg sdk) (enumerate n gs)) =
   concat (map (failure cfg sdk) (enumerate n (map fst gs)))"
  by (induction gs arbitrary: n) (auto simp: sent_def)

lemma shape_apps:
  assumes "shape cfg s"
  shows "fst ` set (goroutines s) \<subseteq> set (InboundApps cfg)"
proof -
  obtain rest where "map fst (goroutines s) @ rest = InboundApps cfg"
    using assms unfolding shape_def by (cases "initialize s") auto
  then have "set (map fst (goroutines s)) \<union> set rest = set (InboundApps cfg)"
    by (metis set_append)
  then show ?thesis by auto
qed

lemma inv_Initialize_step:
  assumes "inv cfg sdk s"
  shows "inv cfg sdk (Initialize_step cfg s)"
proof (cases "initialize s")
  case (Spawning rest)
  show ?thesis
  proof (cases rest)
    case Nil
    with Spawning assms show ?thesis
      by (simp add: inv_def Initialize_step_def shape_def)
  next
    case (Cons a rest')
    with Spawning assms show ?thesis
      by (auto simp: inv_def Initialize_step_def shape_def nth_append sent_append sent_def)
  qed
next
  case WgWait
  show ?thesis
  proof (cases "wg s = 0")
    case True
    with WgWait assms show ?thesis
      by (auto simp: inv_def Initialize_step_def shape_def Let_def)
  next
    case False
    with WgWait assms show ?thesis
      by (simp add: inv_def Initialize_step_def)
  qed
next
  case (Returned r)
  with assms show ?thesis
    by (simp add: Initialize_step_def)
qed

lemma inv_Close:
  assumes "inv cfg sdk s"
  shows "inv cfg sdk (s\<lparr>registry := Close (registry s)\<rparr>)"
  using assms unfolding inv_def shape_def Close_def
  by (cases "initialize s") auto

lemma map_fst_setPoint [simp]: "map fst (goroutines (setPoint i p s)) = map fst (goroutines s)"
proof (cases "i < length (goroutines s)")
  case True
  then have "(map fst (goroutines s))[i := fst (goroutines s ! i)] = map fst (goroutines s)"
    by (metis list_update_id nth_map)
  then show ?thesis by (simp add: setPoint_def map_update)
next
  case False
  then have "length (goroutines s) \<le> i" by simp
  then have "(goroutines s)[i := (fst (goroutines s ! i), p)] = goroutines s"
    by (rule list_update_beyond)
  then show ?thesis by (simp add: setPoint_def)
qed

lemma setPoint_fields [simp]:
  "registry (setPoint i p s) = registry s"
  "wg (setPoint i p s) = wg s"
  "errChan (setPoint i p s) = errChan s"
  "initialize (setPoint i p s) = initialize s"
  "length (goroutines (setPoint i p s)) = length (goroutines s)"
  by (simp_all add: setPoint_def)

lemma nth_setPoint:
  "j < length (goroutines s) \<Longrightarrow>
   goroutines (setPoint i p s) ! j =
     (if j = i then (fst (goroutines s ! i), p) else goroutines s ! j)"
  by (simp add: setPoint_def nth_list_update)

lemma count_setPoint:
  assumes "i < length (goroutines s)" and "goroutines s ! i = (app, q)"
  shows "length (filter (\<lambda>g. snd g \<noteq> Finished) (goroutines (setPoint i p s))) +
           (if q \<noteq> Finished then 1 else 0) =
         length (filter (\<lambda>g. snd g \<noteq> Finished) (goroutines s)) +
           (if p \<noteq> Finished then 1 else 0)"
  using count_update [OF assms(1), of "\<lambda>g. snd g \<noteq> Finished" "(app, p)"] assms(2)
  by (simp add: setPoint_def)

lemma sent_setPoint:
  assumes "i < length (goroutines s)" and "goroutines s ! i = (app, q)"
  shows "mset (concat (map (sent cfg sdk) (enumerate 0 (goroutines (setPoint i p s))))) +
           mset (sent cfg sdk (i, app, q)) =
         mset (concat (map (sent cfg sdk) (enumerate 0 (goroutines s)))) +
           mset (sent cfg sdk (i, app, p))"
  using sent_update [OF assms(1), of "sent cfg sdk" 0 "(app, p)"] assms(2)
  by (simp add: setPoint_def)

lemma returned_finished:
  assumes "inv cfg sdk s" and "initialize s = Returned r" and "g \<in> set (goroutines s)"
  shows "snd g = Finished"
proof -
  from assms(1,2) have "length (filter (\<lambda>g. snd g \<noteq> Finished) (goroutines s)) = 0"
    unfolding inv_def shape_def by auto
  with assms(3) show ?thesis
    unfolding all_finished by blast
qed

lemma inv_goroutine_step:
  assumes "inv cfg sdk s"
  shows "inv cfg sdk (goroutine_step cfg sdk i s)"
proof (cases "i < length (goroutines s)")
  case False
  with assms show ?thesis by (simp add: goroutine_step_def)
next
  case True
  obtain app p where gi: "goroutines s ! i = (app, p)"
    by (cases "goroutines s ! i")
  from True gi have mem: "(app, p) \<in> set (goroutines s)"
    by (metis nth_mem)
  from assms have sh: "shape cfg s" by (simp add: inv_def)
  from shape_apps [OF sh] mem have app: "app \<in> set (InboundApps cfg)" by force
  from assms True gi have ok: "point_ok cfg sdk i (app, p)" by (auto simp: inv_def)
  have notret: "p \<noteq> Finished \<Longrightarrow> \<exists>rest. initialize s = Spawning rest \<or> initialize s = WgWait"
    using returned_finished [OF assms _ mem] by (cases "initialize s") auto
  note cnt = count_setPoint [OF True gi]
  note snt = sent_setPoint [OF True gi, of cfg sdk]
  show ?thesis
  proof (cases p)
    case Spawned
    show ?thesis
    proof (cases "NewClient sdk i (clientOptions cfg app)")
      case (Inl err)
      with Spawned gi True assms notret cnt [of "Sending (createError app err)"]
        snt [of "Sending (createError app err)"] show ?thesis
        by (auto simp: goroutine_step_def inv_def shape_def nth_setPoint sent_def)
    next
      case (Inr client)
      with Spawned gi True assms notret cnt [of "Waiting client"]
        snt [of "Waiting client"] show ?thesis
        by (auto simp: goroutine_step_def inv_def shape_def nth_setPoint sent_def)
    qed
  next
    case (Sending e)
    show ?thesis
    proof (cases "length (errChan s) < length (InboundApps cfg)")
      case False
      with Sending gi True assms show ?thesis by (simp add: goroutine_step_def)
    next
      case room: True
      let ?s = "s\<lparr>errChan := errChan s @ [e]\<rparr>"
      have g: "i < length (goroutines ?s)" "goroutines ?s ! i = (app, p)"
        using True gi by simp_all
      from Sending room gi True assms notret ok
        count_setPoint [OF g, of Exiting] sent_setPoint [OF g, of cfg sdk Exiting]
      show ?thesis
        by (auto simp: goroutine_step_def inv_def shape_def nth_setPoint sent_def
            failure_def completed_def)
    qed
  next
    case (Waiting c)
    with gi True assms notret ok cnt [of "Inserting c"] snt [of "Inserting c"] show ?thesis
      by (auto simp: goroutine_step_def inv_def shape_def nth_setPoint sent_def)
  next
    case (Inserting c)
    let ?s = "s\<lparr>registry := (registry s)\<lparr>clientMap := (clientMap (registry s))(app \<mapsto> c)\<rparr>\<rparr>"
    have g: "i < length (goroutines ?s)" "goroutines ?s ! i = (app, p)"
      using True gi by simp_all
    from Inserting gi True assms notret ok app
      count_setPoint [OF g, of Exiting] sent_setPoint [OF g, of cfg sdk Exiting]
    show ?thesis
      by (auto simp: goroutine_step_def inv_def shape_def nth_setPoint sent_def
          failure_def completed_def)
  next
    case Exiting
    let ?s = "s\<lparr>wg := wg s - 1\<rparr>"
    have g: "i < length (goroutines ?s)" "goroutines ?s ! i = (app, p)"
      using True gi by simp_all
    from Exiting gi True assms notret ok
      count_setPoint [OF g, of Finished] sent_setPoint [OF g, of cfg sdk Finished]
    show ?thesis
      by (auto simp: goroutine_step_def inv_def shape_def nth_setPoint sent_def)
  next
    case Finished
    with gi True assms show ?thesis by (simp add: goroutine_step_def)
  qed
qed

lemma inv_step: "inv cfg sdk s \<Longrightarrow> inv cfg sdk (step cfg sdk s a)"
  by (cases a) (simp_all add: inv_Initialize_step inv_goroutine_step inv_Close)

lemma inv_run: "inv cfg sdk s \<Longrightarrow> inv cfg sdk (run cfg sdk schedule s)"
  unfolding run_def by (induction schedule arbitrary: s) (simp_all add: inv_step)

lemma run_append: "run cfg sdk (xs @ ys) s = run cfg sdk ys (run cfg sdk xs s)"
  by (simp add: run_def)

lemma run_snoc: "run cfg sdk (xs @ [a]) s = step cfg sdk (run cfg sdk xs s) a"
  by (simp add: run_def)

lemma step_returned:
  "initialize s = Returned r \<Longrightarrow> initialize (step cfg sdk s a) = Returned r"
  by (cases a)
    (auto simp: Initialize_step_def goroutine_step_def split: prod.splits point.splits sum.splits)

lemma run_returned:
  "initialize s = Returned r \<Longrightarrow> initialize (run cfg sdk schedule s) = Returned r"
  unfolding run_def by (induction schedule arbitrary: s) (simp_all add: step_returned)

lemma inserted_Initialize_step:
  "inserted cfg sdk s \<Longrightarrow> inserted cfg sdk (Initialize_step cfg s)"
  by (auto simp: inserted_def Initialize_step_def nth_append Let_def
      split: control.splits list.splits)

lemma inserted_goroutine_step:
  assumes "inserted cfg sdk s" and "inv cfg sdk s"
  shows "inserted cfg sdk (goroutine_step cfg sdk i s)"
proof (cases "i < length (goroutines s)")
  case False
  with assms show ?thesis by (simp add: goroutine_step_def)
next
  case True
  obtain app p where gi: "goroutines s ! i = (app, p)"
    by (cases "goroutines s ! i")
  from assms(2) True gi have ok: "point_ok cfg sdk i (app, p)" by (auto simp: inv_def)
  show ?thesis
  proof (cases p)
    case (Sending e)
    with gi True assms(1) ok show ?thesis
      by (auto simp: goroutine_step_def inserted_def nth_setPoint)
  qed (use gi True assms(1) ok in
      \<open>auto simp: goroutine_step_def inserted_def nth_setPoint split: sum.splits\<close>)
qed

lemma inserted_run:
  assumes "CallClose \<notin> set schedule" and "inv cfg sdk s" and "inserted cfg sdk s"
  shows "inserted cfg sdk (run cfg sdk schedule s)"
  using assms
proof (induction schedule rule: rev_induct)
  case Nil
  then show ?case by (simp add: run_def)
next
  case (snoc a schedule)
  then have i: "inserted cfg sdk (run cfg sdk schedule s)"
    and v: "inv cfg sdk (run cfg sdk schedule s)" and a: "a \<noteq> CallClose"
    by (auto simp: inv_run)
  show ?case
    unfolding run_snoc using i v a
    by (cases a) (simp_all add: inserted_Initialize_step inserted_goroutine_step)
qed

lemma inserted_start: "inserted cfg sdk (start cfg)"
  by (simp add: inserted_def start_def)

lemma inv_reachable: "inv cfg sdk (run cfg sdk schedule (start cfg))"
  by (rule inv_run) (rule inv_start)

lemma returned_errChan:
  assumes "inv cfg sdk s" and "initialize s = Returned r"
  shows "mset (errChan s) = mset (failures cfg sdk)"
    and "map fst (goroutines s) = InboundApps cfg"
    and "r = (if errChan s = [] then None else Some (initializeError (errChan s)))"
proof -
  from assms show apps: "map fst (goroutines s) = InboundApps cfg"
    and "r = (if errChan s = [] then None else Some (initializeError (errChan s)))"
    unfolding inv_def shape_def by auto
  have fin: "\<forall>g\<in>set (goroutines s). snd g = Finished"
    using returned_finished [OF assms] by blast
  from assms(1) have "mset (errChan s) =
      mset (concat (map (sent cfg sdk) (enumerate 0 (goroutines s))))"
    by (simp add: inv_def)
  also have "\<dots> = mset (failures cfg sdk)"
    unfolding sent_all_finished [OF fin] apps failures_def ..
  finally show "mset (errChan s) = mset (failures cfg sdk)" .
qed

lemma no_failures:
  assumes "failures cfg sdk = []" and "i < length (InboundApps cfg)"
  shows "\<exists>c. NewClient sdk i (clientOptions cfg (InboundApps cfg ! i)) = Inr c"
proof -
  have "(i, InboundApps cfg ! i) \<in> set (enumerate 0 (InboundApps cfg))"
    using assms(2) by (simp add: in_set_enumerate_eq)
  with assms(1) have "failure cfg sdk (i, InboundApps cfg ! i) = []"
    unfolding failures_def by auto
  then show ?thesis
    by (cases "NewClient sdk i (clientOptions cfg (InboundApps cfg ! i))")
      (simp_all add: failure_def)
qed

lemma returned_found:
  assumes inv: "inv cfg sdk s" and ins: "inserted cfg sdk s"
    and ret: "initialize s = Returned r"
    and i: "i < length (InboundApps cfg)"
    and c: "NewClient sdk i (clientOptions cfg (InboundApps cfg ! i)) = Inr c"
  shows "clientMap (registry s) (InboundApps cfg ! i) \<noteq> None"
proof -
  from returned_errChan(2) [OF inv ret] have apps: "map fst (goroutines s) = InboundApps cfg" .
  then have len: "length (goroutines s) = length (InboundApps cfg)"
    by (metis length_map)
  with i have gi: "i < length (goroutines s)" by simp
  from apps gi have app: "fst (goroutines s ! i) = InboundApps cfg ! i"
    by (metis nth_map)
  from gi have "goroutines s ! i \<in> set (goroutines s)" by simp
  from returned_finished [OF inv ret this] have "snd (goroutines s ! i) = Finished" .
  with ins gi c app show ?thesis
    unfolding inserted_def by auto
qed

text \<open>The errors sent on the channel, and what the aggregate error lists.\<close>

lemma Join_lists:
  "a \<in> set xs \<Longrightarrow> \<exists>pre post. Join xs sep = pre @ a @ post"
proof (induction xs sep rule: Join.induct)
  case (1 sep)
  then show ?case by simp
next
  case (2 x sep)
  then have "Join [x] sep = [] @ a @ []" by simp
  then show ?case by blast
next
  case (3 x y ys sep)
  show ?case
  proof (cases "a = x")
    case True
    then have "Join (x # y # ys) sep = [] @ a @ (sep @ Join (y # ys) sep)" by simp
    then show ?thesis by blast
  next
    case False
    with 3 obtain pre post where "Join (y # ys) sep = pre @ a @ post" by auto
    then have "Join (x # y # ys) sep = (x @ sep @ pre) @ a @ post" by simp
    then show ?thesis by blast
  qed
qed

lemma failure_sent:
  assumes "i < length (InboundApps cfg)"
    and "NewClient sdk i (clientOptions cfg (InboundApps cfg ! i)) = Inl cause"
  shows "createError (InboundApps cfg ! i) cause \<in> set (failures cfg sdk)"
proof -
  have m: "(i, InboundApps cfg ! i) \<in> set (enumerate 0 (InboundApps cfg))"
    using assms(1) by (simp add: in_set_enumerate_eq)
  have f: "failure cfg sdk (i, InboundApps cfg ! i) =
      [createError (InboundApps cfg ! i) cause]"
    using assms(2) by (simp add: failure_def)
  have "createError (InboundApps cfg ! i) cause \<in> set (failure cfg sdk (i, InboundApps cfg ! i))"
    unfolding f by simp
  with m show ?thesis
    unfolding failures_def set_concat set_map by (rule UN_I [OF imageI])
qed

lemma failures_sent:
  assumes "e \<in> set (failures cfg sdk)"
  shows "\<exists>i<length (InboundApps cfg). \<exists>cause.
     NewClient sdk i (clientOptions cfg (InboundApps cfg ! i)) = Inl cause \<and>
     e = createError (InboundApps cfg ! i) cause"
proof -
  from assms obtain i app where m: "(i, app) \<in> set (enumerate 0 (InboundApps cfg))"
    and e: "e \<in> set (failure cfg sdk (i, app))"
    unfolding failures_def by auto
  from m have i: "i < length (InboundApps cfg)" and app: "app = InboundApps cfg ! i"
    by (simp_all add: in_set_enumerate_eq)
  show ?thesis
  proof (cases "NewClient sdk i (clientOptions cfg (InboundApps cfg ! i))")
    case (Inl cause)
    with e app have "e = createError (InboundApps cfg ! i) cause"
      by (simp add: failure_def)
    with i Inl show ?thesis by blast
  next
    case (Inr c)
    with e app show ?thesis by (simp add: failure_def)
  qed
qed


lemma returned_error:
  assumes inv: "inv cfg sdk s" and ret: "initialize s = Returned (Some err)"
  shows "err = ''failed to initialize some Unleash clients: ['' @ Join (errChan s) '' '' @ '']''"
    and "set (errChan s) = set (failures cfg sdk)"
    and "errChan s \<noteq> []"
proof -
  from returned_errChan(3) [OF inv ret]
  show ne: "errChan s \<noteq> []" and "err = ''failed to initialize some Unleash clients: ['' @ Join (errChan s) '' '' @ '']''"
    by (simp_all add: initializeError_def split: if_splits)
  from returned_errChan(1) [OF inv ret] show "set (errChan s) = set (failures cfg sdk)"
    by (rule mset_eq_setD)
qed

lemma returned_error_lists:
  assumes inv: "inv cfg sdk s" and ret: "initialize s = Returned (Some err)"
    and i: "i < length (InboundApps cfg)"
    and new: "NewClient sdk i (clientOptions cfg (InboundApps cfg ! i)) = Inl cause"
  shows "\<exists>pre post.
     err = pre @ ''failed to create Unleash client for '' @ InboundApps cfg ! i @ '': '' @
             cause @ post"
proof -
  from failure_sent [OF i new] returned_error(2) [OF inv ret]
  have "createError (InboundApps cfg ! i) cause \<in> set (errChan s)"
    by simp
  from Join_lists [OF this, of "'' ''"] obtain p q
    where j: "Join (errChan s) '' '' = p @ createError (InboundApps cfg ! i) cause @ q"
    by blast
  have "err = (''failed to initialize some Unleash clients: ['' @ p) @
      ''failed to create Unleash client for '' @ InboundApps cfg ! i @ '': '' @ cause @
      (q @ '']'')"
    unfolding returned_error(1) [OF inv ret] j createError_def by simp
  then show ?thesis by (intro exI)
qed

lemma returned_error_members:
  assumes inv: "inv cfg sdk s" and ret: "initialize s = Returned (Some err)"
    and e: "e \<in> set (errChan s)"
  shows "\<exists>i<length (InboundApps cfg). \<exists>cause.
     NewClient sdk i (clientOptions cfg (InboundApps cfg ! i)) = Inl cause \<and>
     e = ''failed to create Unleash client for '' @ InboundApps cfg ! i @ '': '' @ cause"
proof -
  from e returned_error(2) [OF inv ret] have "e \<in> set (failures cfg sdk)"
    by simp
  from failures_sent [OF this] show ?thesis
    unfolding createError_def .
qed

text \<open>
  Claim C1. In every state reached from the start in which \<^verbatim>\<open>Initialize\<close> has returned
  \<^verbatim>\<open>nil\<close>, every construction has succeeded, \<^verbatim>\<open>Ready()\<close> is true and, unless \<^verbatim>\<open>Close\<close>
  has run, \<^verbatim>\<open>Get\<close> finds every identity of the allow-list. In every state in which it
  has returned an error, some construction has failed; the error is the text
  \<^verbatim>\<open>failed to initialize some Unleash clients: [\<close>...\<^verbatim>\<open>]\<close> around the errors received on the
  channel, separated by spaces; these are, up to their order, one error
  \<^verbatim>\<open>failed to create Unleash client for <identity>: <cause>\<close> for each construction that
  failed and no other, so that the returned text contains the identity and the cause of
  every failure; \<^verbatim>\<open>Ready()\<close> is false, and it stays false whatever steps and calls follow.
\<close>

theorem Initialize_returned:
  "(initialize (run cfg sdk schedule (start cfg)) = Returned None \<longrightarrow>
      failures cfg sdk = [] \<and>
      (\<forall>i<length (InboundApps cfg).
         \<exists>c. NewClient sdk i (clientOptions cfg (InboundApps cfg ! i)) = Inr c) \<and>
      Ready (registry (run cfg sdk schedule (start cfg))) \<and>
      (CallClose \<notin> set schedule \<longrightarrow>
        (\<forall>identity\<in>set (InboundApps cfg).
           snd (Get (registry (run cfg sdk schedule (start cfg))) identity)))) \<and>
   (\<forall>err. initialize (run cfg sdk schedule (start cfg)) = Returned (Some err) \<longrightarrow>
      failures cfg sdk \<noteq> [] \<and>
      (\<exists>errs.
         err = ''failed to initialize some Unleash clients: ['' @ Join errs '' '' @ '']'' \<and>
         mset errs = mset (failures cfg sdk) \<and>
         errs \<noteq> [] \<and>
         (\<forall>e\<in>set errs. \<exists>i<length (InboundApps cfg). \<exists>cause.
            NewClient sdk i (clientOptions cfg (InboundApps cfg ! i)) = Inl cause \<and>
            e = ''failed to create Unleash client for '' @ InboundApps cfg ! i @ '': '' @ cause)) \<and>
      (\<forall>i<length (InboundApps cfg). \<forall>cause.
         NewClient sdk i (clientOptions cfg (InboundApps cfg ! i)) = Inl cause \<longrightarrow>
         (\<exists>pre post.
            err = pre @ ''failed to create Unleash client for '' @ InboundApps cfg ! i @ '': '' @
                    cause @ post)) \<and>
      \<not> Ready (registry (run cfg sdk schedule (start cfg))) \<and>
      (\<forall>later. \<not> Ready (registry (run cfg sdk later (run cfg sdk schedule (start cfg))))))"
proof -
  let ?s = "run cfg sdk schedule (start cfg)"
  have inv: "inv cfg sdk ?s" by (rule inv_reachable)
  have ok: "failures cfg sdk = [] \<and>
      (\<forall>i<length (InboundApps cfg).
         \<exists>c. NewClient sdk i (clientOptions cfg (InboundApps cfg ! i)) = Inr c) \<and>
      Ready (registry ?s) \<and>
      (CallClose \<notin> set schedule \<longrightarrow>
        (\<forall>identity\<in>set (InboundApps cfg). snd (Get (registry ?s) identity)))"
    if ret: "initialize ?s = Returned None"
  proof (intro conjI impI ballI allI)
    from returned_errChan(3) [OF inv ret] have "errChan ?s = []"
      by (simp split: if_splits)
    with returned_errChan(1) [OF inv ret] show none: "failures cfg sdk = []"
      by simp
    show "\<exists>c. NewClient sdk i (clientOptions cfg (InboundApps cfg ! i)) = Inr c"
      if "i < length (InboundApps cfg)" for i
      using none that by (rule no_failures)
    from inv ret show "Ready (registry ?s)"
      by (simp add: inv_def Ready_def)
    fix identity
    assume "CallClose \<notin> set schedule" and "identity \<in> set (InboundApps cfg)"
    then obtain i where i: "i < length (InboundApps cfg)" "InboundApps cfg ! i = identity"
      by (auto simp: in_set_conv_nth)
    from no_failures [OF none i(1)] obtain c
      where c: "NewClient sdk i (clientOptions cfg (InboundApps cfg ! i)) = Inr c" ..
    have "inserted cfg sdk ?s"
      using \<open>CallClose \<notin> set schedule\<close> inv_start inserted_start by (rule inserted_run)
    from returned_found [OF inv this ret i(1) c] i(2)
    show "snd (Get (registry ?s) identity)"
      by (simp add: Get_def)
  qed
  have bad: "failures cfg sdk \<noteq> [] \<and>
      (\<exists>errs.
         err = ''failed to initialize some Unleash clients: ['' @ Join errs '' '' @ '']'' \<and>
         mset errs = mset (failures cfg sdk) \<and>
         errs \<noteq> [] \<and>
         (\<forall>e\<in>set errs. \<exists>i<length (InboundApps cfg). \<exists>cause.
            NewClient sdk i (clientOptions cfg (InboundApps cfg ! i)) = Inl cause \<and>
            e = ''failed to create Unleash client for '' @ InboundApps cfg ! i @ '': '' @ cause)) \<and>
      (\<forall>i<length (InboundApps cfg). \<forall>cause.
         NewClient sdk i (clientOptions cfg (InboundApps cfg ! i)) = Inl cause \<longrightarrow>
         (\<exists>pre post.
            err = pre @ ''failed to create Unleash client for '' @ InboundApps cfg ! i @ '': '' @
                    cause @ post)) \<and>
      \<not> Ready (registry ?s) \<and>
      (\<forall>later. \<not> Ready (registry (run cfg sdk later ?s)))"
    if ret: "initialize ?s = Returned (Some err)" for err
  proof (intro conjI allI impI)
    note ms = returned_errChan(1) [OF inv ret]
    from returned_error(3) [OF inv ret] ms show "failures cfg sdk \<noteq> []"
      by auto
    show "\<exists>errs.
        err = ''failed to initialize some Unleash clients: ['' @ Join errs '' '' @ '']'' \<and>
        mset errs = mset (failures cfg sdk) \<and>
        errs \<noteq> [] \<and>
        (\<forall>e\<in>set errs. \<exists>i<length (InboundApps cfg). \<exists>cause.
           NewClient sdk i (clientOptions cfg (InboundApps cfg ! i)) = Inl cause \<and>
           e = ''failed to create Unleash client for '' @ InboundApps cfg ! i @ '': '' @ cause)"
    proof (intro exI [of _ "errChan ?s"] conjI ballI)
      show "err = ''failed to initialize some Unleash clients: ['' @ Join (errChan ?s) '' '' @ '']''"
        by (rule returned_error(1) [OF inv ret])
      show "mset (errChan ?s) = mset (failures cfg sdk)" by (rule ms)
      show "errChan ?s \<noteq> []" by (rule returned_error(3) [OF inv ret])
      show "\<exists>i<length (InboundApps cfg). \<exists>cause.
          NewClient sdk i (clientOptions cfg (InboundApps cfg ! i)) = Inl cause \<and>
          e = ''failed to create Unleash client for '' @ InboundApps cfg ! i @ '': '' @ cause"
        if "e \<in> set (errChan ?s)" for e
        using inv ret that by (rule returned_error_members)
    qed
    show "\<exists>pre post.
        err = pre @ ''failed to create Unleash client for '' @ InboundApps cfg ! i @ '': '' @
                cause @ post"
      if "i < length (InboundApps cfg)"
        and "NewClient sdk i (clientOptions cfg (InboundApps cfg ! i)) = Inl cause"
      for i cause
      using inv ret that by (rule returned_error_lists)
    from inv ret show "\<not> Ready (registry ?s)"
      by (simp add: inv_def Ready_def)
    fix later
    have "inv cfg sdk (run cfg sdk later ?s)"
      using inv by (rule inv_run)
    moreover have "initialize (run cfg sdk later ?s) = Returned (Some err)"
      using ret by (rule run_returned)
    ultimately show "\<not> Ready (registry (run cfg sdk later ?s))"
      by (simp add: inv_def Ready_def)
  qed
  from ok have a: "initialize ?s = Returned None \<longrightarrow>
      failures cfg sdk = [] \<and>
      (\<forall>i<length (InboundApps cfg).
         \<exists>c. NewClient sdk i (clientOptions cfg (InboundApps cfg ! i)) = Inr c) \<and>
      Ready (registry ?s) \<and>
      (CallClose \<notin> set schedule \<longrightarrow>
        (\<forall>identity\<in>set (InboundApps cfg). snd (Get (registry ?s) identity)))"
    by (rule impI)
  show ?thesis
  proof (rule conjI [OF a], rule allI, rule impI)
    fix err
    assume "initialize ?s = Returned (Some err)"
    then show "failures cfg sdk \<noteq> [] \<and>
      (\<exists>errs.
         err = ''failed to initialize some Unleash clients: ['' @ Join errs '' '' @ '']'' \<and>
         mset errs = mset (failures cfg sdk) \<and>
         errs \<noteq> [] \<and>
         (\<forall>e\<in>set errs. \<exists>i<length (InboundApps cfg). \<exists>cause.
            NewClient sdk i (clientOptions cfg (InboundApps cfg ! i)) = Inl cause \<and>
            e = ''failed to create Unleash client for '' @ InboundApps cfg ! i @ '': '' @ cause)) \<and>
      (\<forall>i<length (InboundApps cfg). \<forall>cause.
         NewClient sdk i (clientOptions cfg (InboundApps cfg ! i)) = Inl cause \<longrightarrow>
         (\<exists>pre post.
            err = pre @ ''failed to create Unleash client for '' @ InboundApps cfg ! i @ '': '' @
                    cause @ post)) \<and>
      \<not> Ready (registry ?s) \<and>
      (\<forall>later. \<not> Ready (registry (run cfg sdk later ?s)))"
      by (rule bad)
  qed
qed

text \<open>The definitions a concrete run unfolds.\<close>

lemmas ex_defs = run_def exampleConfig_def exampleSdk_def failingSdk_def hangingSdk_def exampleSchedule_def start_def
  Initialize_step_def goroutine_step_def setPoint_def clientOptions_def createError_def initializeError_def

lemma ex1: "initialize (run exampleConfig exampleSdk exampleSchedule (start exampleConfig)) = Returned None"
  by (simp add: ex_defs)

lemma ex2: "initialize (run exampleConfig failingSdk exampleSchedule (start exampleConfig)) =
  Returned (Some ''failed to initialize some Unleash clients: [failed to create Unleash client for app2: no url]'')"
  by (simp add: ex_defs)

lemma ex3: "CallClose \<notin> set exampleSchedule"
  by (simp add: exampleSchedule_def)

theorem Initialize_returned_witness:
  "Ready (registry (run exampleConfig exampleSdk exampleSchedule (start exampleConfig))) \<and>
   snd (Get (registry (run exampleConfig exampleSdk exampleSchedule (start exampleConfig))) ''app1'') \<and>
   snd (Get (registry (run exampleConfig exampleSdk exampleSchedule (start exampleConfig))) ''app2'') \<and>
   initialize (run exampleConfig failingSdk exampleSchedule (start exampleConfig)) =
     Returned (Some ''failed to initialize some Unleash clients: [failed to create Unleash client for app2: no url]'') \<and>
   (\<exists>pre post. ''failed to initialize some Unleash clients: [failed to create Unleash client for app2: no url]'' =
      pre @ ''failed to create Unleash client for app2: no url'' @ post) \<and>
   failures exampleConfig failingSdk \<noteq> [] \<and>
   \<not> Ready (registry (run exampleConfig failingSdk exampleSchedule (start exampleConfig))) \<and>
   (\<forall>later. \<not> Ready (registry (run exampleConfig failingSdk later
      (run exampleConfig failingSdk exampleSchedule (start exampleConfig)))))"
proof -
  note good = Initialize_returned [of exampleConfig exampleSdk exampleSchedule,
      THEN conjunct1, THEN mp, OF ex1]
  note bad = Initialize_returned [of exampleConfig failingSdk exampleSchedule,
      THEN conjunct2, THEN spec, THEN mp, OF ex2]
  from good ex3 have a: "Ready (registry (run exampleConfig exampleSdk exampleSchedule (start exampleConfig))) \<and>
   snd (Get (registry (run exampleConfig exampleSdk exampleSchedule (start exampleConfig))) ''app1'') \<and>
   snd (Get (registry (run exampleConfig exampleSdk exampleSchedule (start exampleConfig))) ''app2'')"
    by (simp add: exampleConfig_def)
  have new: "NewClient failingSdk 1 (clientOptions exampleConfig (InboundApps exampleConfig ! 1)) = Inl ''no url''"
    by (simp add: failingSdk_def)
  have "(1::nat) < length (InboundApps exampleConfig)"
    by (simp add: exampleConfig_def)
  with bad new have "\<exists>pre post. ''failed to initialize some Unleash clients: [failed to create Unleash client for app2: no url]'' =
      pre @ ''failed to create Unleash client for '' @ InboundApps exampleConfig ! 1 @ '': '' @ ''no url'' @ post"
    by blast
  then have b: "\<exists>pre post. ''failed to initialize some Unleash clients: [failed to create Unleash client for app2: no url]'' =
      pre @ ''failed to create Unleash client for app2: no url'' @ post"
    by (simp add: exampleConfig_def)
  from a b ex2 bad show ?thesis
    by blast
qed

text \<open>
  Claim C5. In every state reached from the start, whatever steps of \<^verbatim>\<open>Initialize\<close> and
  of its goroutines and whatever calls of \<^verbatim>\<open>Get\<close>, \<^verbatim>\<open>Ready\<close>, \<^verbatim>\<open>IsValidApp\<close> and
  \<^verbatim>\<open>Close\<close> led to it, every key of the client map is a member of the allow-list.
\<close>

theorem clientMap_allow_listed:
  "dom (clientMap (registry (run cfg sdk schedule (start cfg)))) \<subseteq> set (InboundApps cfg)"
  using inv_reachable [of cfg sdk schedule] by (simp add: inv_def)

lemma ex4: "clientMap (registry (run exampleConfig exampleSdk exampleSchedule (start exampleConfig))) =
   [''app1'' \<mapsto> ''app1'', ''app2'' \<mapsto> ''app2'']"
  by (simp add: ex_defs)

theorem clientMap_allow_listed_witness:
  "dom [''app1'' \<mapsto> ''app1'', ''app2'' \<mapsto> ''app2''] \<subseteq> set [''app1'', ''app2''] \<and>
   dom (clientMap (registry (run exampleConfig exampleSdk (exampleSchedule @ [CallClose, CallGet ''app3''])
     (start exampleConfig)))) \<subseteq> set [''app1'', ''app2'']"
  using clientMap_allow_listed [of exampleConfig exampleSdk exampleSchedule]
    clientMap_allow_listed [of exampleConfig exampleSdk "exampleSchedule @ [CallClose, CallGet ''app3'']"]
  unfolding ex4 by (simp add: exampleConfig_def)

lemma spawned_prefix:
  assumes "inv cfg sdk s"
  shows "\<exists>rest. map fst (goroutines s) @ rest = InboundApps cfg"
  using assms unfolding inv_def shape_def by (cases "initialize s") auto

lemma returned_completed:
  assumes inv: "inv cfg sdk s" and ret: "initialize s = Returned r"
    and i: "i < length (InboundApps cfg)"
  shows "completed cfg sdk i (InboundApps cfg ! i)"
proof -
  from returned_errChan(2) [OF inv ret] have apps: "map fst (goroutines s) = InboundApps cfg" .
  then have "length (goroutines s) = length (InboundApps cfg)"
    by (metis length_map)
  with i have gi: "i < length (goroutines s)" by simp
  from apps gi have app: "fst (goroutines s ! i) = InboundApps cfg ! i"
    by (metis nth_map)
  from gi have "goroutines s ! i \<in> set (goroutines s)" by simp
  from returned_finished [OF inv ret this] have "snd (goroutines s ! i) = Finished" .
  with app have "goroutines s ! i = (InboundApps cfg ! i, Finished)"
    by (metis prod.collapse)
  moreover from inv gi have "point_ok cfg sdk i (goroutines s ! i)"
    by (simp add: inv_def)
  ultimately show ?thesis by simp
qed

text \<open>
  Claim C6. \<^verbatim>\<open>Initialize\<close> never has more goroutines than the allow-list has entries,
  and in every state in which it has returned (with or without an error) it has started
  one goroutine for each entry, all of them have finished, and each construction has
  either failed or produced a client that signalled readiness; the client of a
  successful construction has been inserted (it is in the map unless \<^verbatim>\<open>Close\<close> has run),
  whether or not another construction failed. So \<^verbatim>\<open>Initialize\<close> does not return while a
  construction is still waiting for its client.
\<close>

theorem Initialize_barrier:
  "length (goroutines (run cfg sdk schedule (start cfg))) \<le> length (InboundApps cfg) \<and>
   (\<forall>r. initialize (run cfg sdk schedule (start cfg)) = Returned r \<longrightarrow>
      map fst (goroutines (run cfg sdk schedule (start cfg))) = InboundApps cfg \<and>
      (\<forall>g\<in>set (goroutines (run cfg sdk schedule (start cfg))). snd g = Finished) \<and>
      (\<forall>i<length (InboundApps cfg).
         (\<exists>err. NewClient sdk i (clientOptions cfg (InboundApps cfg ! i)) = Inl err) \<or>
         (\<exists>c. NewClient sdk i (clientOptions cfg (InboundApps cfg ! i)) = Inr c \<and>
              WaitForReady sdk c \<and>
              (CallClose \<notin> set schedule \<longrightarrow>
                 clientMap (registry (run cfg sdk schedule (start cfg))) (InboundApps cfg ! i)
                   \<noteq> None))))"
proof -
  let ?s = "run cfg sdk schedule (start cfg)"
  have inv: "inv cfg sdk ?s" by (rule inv_reachable)
  from spawned_prefix [OF inv] obtain rest
    where "map fst (goroutines ?s) @ rest = InboundApps cfg" ..
  then have "length (map fst (goroutines ?s) @ rest) = length (InboundApps cfg)"
    by simp
  then have len: "length (goroutines ?s) \<le> length (InboundApps cfg)"
    by simp
  have fin: "map fst (goroutines ?s) = InboundApps cfg \<and>
      (\<forall>g\<in>set (goroutines ?s). snd g = Finished) \<and>
      (\<forall>i<length (InboundApps cfg).
         (\<exists>err. NewClient sdk i (clientOptions cfg (InboundApps cfg ! i)) = Inl err) \<or>
         (\<exists>c. NewClient sdk i (clientOptions cfg (InboundApps cfg ! i)) = Inr c \<and>
              WaitForReady sdk c \<and>
              (CallClose \<notin> set schedule \<longrightarrow>
                 clientMap (registry ?s) (InboundApps cfg ! i) \<noteq> None)))"
    if ret: "initialize ?s = Returned r" for r
  proof (intro conjI ballI allI impI)
    show "map fst (goroutines ?s) = InboundApps cfg"
      using returned_errChan(2) [OF inv ret] .
    show "snd g = Finished" if "g \<in> set (goroutines ?s)" for g
      using returned_finished [OF inv ret that] .
    fix i
    assume i: "i < length (InboundApps cfg)"
    show "(\<exists>err. NewClient sdk i (clientOptions cfg (InboundApps cfg ! i)) = Inl err) \<or>
         (\<exists>c. NewClient sdk i (clientOptions cfg (InboundApps cfg ! i)) = Inr c \<and>
              WaitForReady sdk c \<and>
              (CallClose \<notin> set schedule \<longrightarrow>
                 clientMap (registry ?s) (InboundApps cfg ! i) \<noteq> None))"
    proof (cases "NewClient sdk i (clientOptions cfg (InboundApps cfg ! i))")
      case (Inl err)
      then show ?thesis by simp
    next
      case (Inr c)
      from returned_completed [OF inv ret i] Inr have "WaitForReady sdk c"
        by (simp add: completed_def)
      moreover have "clientMap (registry ?s) (InboundApps cfg ! i) \<noteq> None"
        if "CallClose \<notin> set schedule"
      proof -
        have "inserted cfg sdk ?s"
          using that inv_start inserted_start by (rule inserted_run)
        from returned_found [OF inv this ret i Inr] show ?thesis .
      qed
      ultimately show ?thesis using Inr by simp
    qed
  qed
  from len fin show ?thesis by blast
qed

lemma ex5: "NewClient hangingSdk 1 (clientOptions exampleConfig (InboundApps exampleConfig ! 1)) = Inr ''app2''"
  "\<not> WaitForReady hangingSdk ''app2''"
  by (simp_all add: ex_defs)

theorem Initialize_barrier_witness:
  "goroutines (run exampleConfig failingSdk exampleSchedule (start exampleConfig)) =
     [(''app1'', Finished), (''app2'', Finished)] \<and>
   clientMap (registry (run exampleConfig failingSdk exampleSchedule (start exampleConfig))) ''app1''
     \<noteq> None \<and>
   (\<forall>schedule r. initialize (run exampleConfig hangingSdk schedule (start exampleConfig))
     \<noteq> Returned r)"
proof (intro conjI allI)
  from Initialize_barrier [of exampleConfig failingSdk exampleSchedule] ex2
  have "map fst (goroutines (run exampleConfig failingSdk exampleSchedule (start exampleConfig)))
      = InboundApps exampleConfig"
    and "\<forall>g\<in>set (goroutines (run exampleConfig failingSdk exampleSchedule (start exampleConfig))).
      snd g = Finished"
    by simp_all
  then show "goroutines (run exampleConfig failingSdk exampleSchedule (start exampleConfig)) =
     [(''app1'', Finished), (''app2'', Finished)]"
    by (simp add: ex_defs)
  show "clientMap (registry (run exampleConfig failingSdk exampleSchedule (start exampleConfig)))
     ''app1'' \<noteq> None"
    by (simp add: ex_defs)
  fix schedule r
  from Initialize_barrier [of exampleConfig hangingSdk schedule] ex5
  show "initialize (run exampleConfig hangingSdk schedule (start exampleConfig)) \<noteq> Returned r"
    by (auto simp: exampleConfig_def)
qed

lemma ready_stays:
  assumes "initialize (run cfg sdk schedule (start cfg)) = Returned None"
  shows "Ready (registry (run cfg sdk later (run cfg sdk schedule (start cfg))))"
proof -
  have "inv cfg sdk (run cfg sdk later (run cfg sdk schedule (start cfg)))"
    by (rule inv_run) (rule inv_reachable)
  moreover have "initialize (run cfg sdk later (run cfg sdk schedule (start cfg))) = Returned None"
    using assms by (rule run_returned)
  ultimately show ?thesis by (simp add: inv_def Ready_def)
qed

text \<open>
  Claim C9. After \<^verbatim>\<open>Close\<close>, \<^verbatim>\<open>Get\<close> finds no identity; \<^verbatim>\<open>Close\<close> leaves the
  readiness flag as it is; a second \<^verbatim>\<open>Close\<close> leaves the empty map unchanged; and after
  a start in which \<^verbatim>\<open>Initialize\<close> has returned \<^verbatim>\<open>nil\<close>, \<^verbatim>\<open>Ready()\<close> is still true once
  \<^verbatim>\<open>Close\<close> has removed every client.
\<close>

theorem Close_empties:
  "(\<forall>identity. Get (Close r) identity = (None, False)) \<and>
   Ready (Close r) = Ready r \<and>
   clientMap (Close (Close r)) = clientMap (Close r) \<and>
   (initialize (run cfg sdk schedule (start cfg)) = Returned None \<longrightarrow>
      Ready (registry (step cfg sdk (run cfg sdk schedule (start cfg)) CallClose)) \<and>
      (\<forall>identity.
         \<not> snd (Get (registry (step cfg sdk (run cfg sdk schedule (start cfg)) CallClose))
           identity)))"
proof (intro conjI impI allI)
  show "Get (Close r) identity = (None, False)" for identity
    by (simp add: Get_def Close_def)
  show "Ready (Close r) = Ready r"
    by (simp add: Ready_def Close_def)
  show "clientMap (Close (Close r)) = clientMap (Close r)"
    by (simp add: Close_def)
  assume ret: "initialize (run cfg sdk schedule (start cfg)) = Returned None"
  from ready_stays [OF ret, of "[CallClose]"]
  show "Ready (registry (step cfg sdk (run cfg sdk schedule (start cfg)) CallClose))"
    by (simp add: run_def)
  show "\<not> snd (Get (registry (step cfg sdk (run cfg sdk schedule (start cfg)) CallClose))
      identity)" for identity
    by (simp add: Get_def Close_def)
qed

theorem Close_empties_witness:
  "snd (Get (registry (run exampleConfig exampleSdk exampleSchedule (start exampleConfig))) ''app1'') \<and>
   Ready (registry (step exampleConfig exampleSdk
     (run exampleConfig exampleSdk exampleSchedule (start exampleConfig)) CallClose)) \<and>
   \<not> snd (Get (registry (step exampleConfig exampleSdk
     (run exampleConfig exampleSdk exampleSchedule (start exampleConfig)) CallClose)) ''app1'')"
proof -
  from Close_empties [of "registry (run exampleConfig exampleSdk exampleSchedule (start exampleConfig))"
      exampleConfig exampleSdk exampleSchedule] ex1
  have "Ready (registry (step exampleConfig exampleSdk
      (run exampleConfig exampleSdk exampleSchedule (start exampleConfig)) CallClose)) \<and>
    \<not> snd (Get (registry (step exampleConfig exampleSdk
      (run exampleConfig exampleSdk exampleSchedule (start exampleConfig)) CallClose)) ''app1'')"
    by blast
  then show ?thesis
    by (simp add: Get_def ex4)
qed

section \<open>Properties of the handler\<close>

text \<open>The definitions that evaluating the decoder and the validation unfolds.\<close>

lemmas scan_defs = scan_step_def stateBeginValue_fn_def stateBeginValueOrEmpty_fn_def
  stateBeginStringOrEmpty_fn_def stateBeginString_fn_def stateEndValue_fn_def stateEndTop_fn_def
  stateInString_fn_def stateInStringEsc_fn_def hexThen_def stateNeg_fn_def state0_fn_def state1_fn_def
  stateDot_fn_def stateDot0_fn_def stateESign_fn_def stateE_fn_def stateE0_fn_def letterThen_def
  isSpace_def isDigit_def isDigit19_def isHex_def scan_error_def continue_def beginLiteral_def
  pushParseState_def popParseState_def maxNestingDepth_def reset_def byte_def

lemmas decode_defs = Decode_def readValue_def unmarshal_def members_def collect_def endLiteral_def
  store_def literalStore_def saveError_def findField_def byExactName_def byFoldedName_def
  foldedEq_def toUpper_def setField_def unquoteBytes_def simpleEscape_def char_of_def bit_iff_odd

lemmas name_defs = IsValidName_def PathEscape_def escape_def escapeByte_def shouldEscape_def
  isAlnum_def byte_def TrimPrefix_def PathPrefix_def

lemma Decode_example:
  \<open>Decode ''{"appName":"app1","navIdent":"U1"}'' =
     Decoded \<lparr>NavIdent = ''U1'', AppName = ''app1'', PodName = []\<rparr>\<close>
  by (simp add: decode_defs scan_defs)

lemma Decode_app2: \<open>Decode ''{"appName":"app2"}'' =
    Decoded \<lparr>NavIdent = [], AppName = ''app2'', PodName = []\<rparr>\<close>
  by (simp add: decode_defs scan_defs)

lemma Decode_app3: \<open>Decode ''{"appName":"app3"}'' =
    Decoded \<lparr>NavIdent = [], AppName = ''app3'', PodName = []\<rparr>\<close>
  by (simp add: decode_defs scan_defs)

lemma Decode_empty_object: \<open>Decode ''{}'' = Decoded \<lparr>NavIdent = [], AppName = [], PodName = []\<rparr>\<close>
  by (simp add: decode_defs scan_defs)

lemma startingRegistry_clientMap: "clientMap startingRegistry = [''app1'' \<mapsto> ''app1'']"
  by (simp add: startingRegistry_def ex_defs)

text \<open>
  Claim C3. For a request with an accepted method, a valid feature name and a body
  that decodes to a request with a caller identity under which the registry holds a
  client, \<^verbatim>\<open>Get\<close> returns that client, and the handler replies with status 200 and the body
  \<^verbatim>\<open>{"enabled":b}\<close>, where \<open>b\<close> is the decision of that client for the feature name under the
  context built from the request (environment, user id, application name, remote address
  and the property \<^verbatim>\<open>podName\<close>). The handler looks the client up once and asks it once:
  there is no retry and no fallback.
\<close>

theorem Handler_success:
  assumes "Method r = ''POST'' \<or> Method r = ''QUERY''"
    and "IsValidName (TrimPrefix (Path r) PathPrefix)"
    and "Decode (Body r) = Decoded req"
    and "AppName req \<noteq> []"
    and "clientMap reg (AppName req) = Some c"
  shows \<open>Get reg (AppName req) = (Some c, True) \<and>
     Handler cfg sdk reg r =
     \<lparr>reply = Some
        \<lparr>statusCode = 200, responseHeader = [(''Content-Type'', ''application/json'')],
         responseBody =
           (if IsEnabled sdk c (TrimPrefix (Path r) PathPrefix)
                 \<lparr>Environment = UnleashServerAPIEnv cfg, UserId = NavIdent req,
                  ctxAppName = AppName req, RemoteAddress = RemoteAddr r,
                  Properties = [(''podName'', PodName req)]\<rparr>
            then ''{"enabled":true}'' else ''{"enabled":false}'') @ [CHR 0x0A]\<rparr>,
      calls =
        [ClientsGet (AppName req),
         ClientIsEnabled c (TrimPrefix (Path r) PathPrefix)
           \<lparr>Environment = UnleashServerAPIEnv cfg, UserId = NavIdent req,
            ctxAppName = AppName req, RemoteAddress = RemoteAddr r,
            Properties = [(''podName'', PodName req)]\<rparr>]\<rparr>\<close>
proof -
  from assms(2) have "TrimPrefix (Path r) PathPrefix \<noteq> []"
    by (auto simp: IsValidName_def)
  with assms show ?thesis
    by (auto simp: Handler_def Get_def Let_def unleashCtx_def encodeResponse_def StatusOK_def)
qed

theorem Handler_success_witness:
  \<open>Handler exampleConfig exampleSdk exampleRegistry exampleRequest =
     \<lparr>reply = Some
        \<lparr>statusCode = 200, responseHeader = [(''Content-Type'', ''application/json'')],
         responseBody = ''{"enabled":true}'' @ [CHR 0x0A]\<rparr>,
      calls =
        [ClientsGet ''app1'',
         ClientIsEnabled ''app1'' ''my-flag''
           \<lparr>Environment = ''dev'', UserId = ''U1'', ctxAppName = ''app1'',
            RemoteAddress = ''10.0.0.1:4711'', Properties = [(''podName'', [])]\<rparr>]\<rparr> \<and>
   Handler exampleConfig exampleSdk exampleRegistry (exampleRequest\<lparr>Body := ''{"appName":"app2"}''\<rparr>) =
     \<lparr>reply = Some
        \<lparr>statusCode = 200, responseHeader = [(''Content-Type'', ''application/json'')],
         responseBody = ''{"enabled":false}'' @ [CHR 0x0A]\<rparr>,
      calls =
        [ClientsGet ''app2'',
         ClientIsEnabled ''app2'' ''my-flag''
           \<lparr>Environment = ''dev'', UserId = [], ctxAppName = ''app2'',
            RemoteAddress = ''10.0.0.1:4711'', Properties = [(''podName'', [])]\<rparr>]\<rparr>\<close>
  using Handler_success [of exampleRequest
      "\<lparr>NavIdent = ''U1'', AppName = ''app1'', PodName = []\<rparr>"
      exampleRegistry "''app1''" exampleConfig exampleSdk]
    Handler_success [of \<open>exampleRequest\<lparr>Body := ''{"appName":"app2"}''\<rparr>\<close>
      "\<lparr>NavIdent = [], AppName = ''app2'', PodName = []\<rparr>"
      exampleRegistry "''app2''" exampleConfig exampleSdk]
  by (simp add: exampleRequest_def exampleRegistry_def exampleConfig_def exampleSdk_def
      Decode_example Decode_app2 name_defs)

lemma Handler_missing_app:
  assumes "Method r = ''POST'' \<or> Method r = ''QUERY''"
    and "IsValidName (TrimPrefix (Path r) PathPrefix)"
    and "Decode (Body r) = Decoded req"
    and "AppName req = []"
  shows "Handler cfg sdk reg r =
     \<lparr>reply = Some (http_Error (missingAppNameMessage cfg) 400), calls = []\<rparr>"
proof -
  from assms(2) have "TrimPrefix (Path r) PathPrefix \<noteq> []"
    by (auto simp: IsValidName_def)
  with assms show ?thesis
    by (auto simp: Handler_def Let_def failed_def StatusBadRequest_def)
qed

lemma Handler_unknown_app:
  assumes "Method r = ''POST'' \<or> Method r = ''QUERY''"
    and "IsValidName (TrimPrefix (Path r) PathPrefix)"
    and "Decode (Body r) = Decoded req"
    and "AppName req \<noteq> []"
    and "clientMap reg (AppName req) = None"
  shows "Handler cfg sdk reg r =
     \<lparr>reply = Some (http_Error (unknownAppNameMessage cfg) 400),
      calls = [ClientsGet (AppName req)]\<rparr>"
proof -
  from assms(2) have "TrimPrefix (Path r) PathPrefix \<noteq> []"
    by (auto simp: IsValidName_def)
  with assms show ?thesis
    by (auto simp: Handler_def Get_def Let_def failed_def StatusBadRequest_def)
qed

text \<open>
  Claim C4. For a request that has passed the checks of the method and of the feature
  name and whose body decodes to a request with a caller identity under which the registry
  holds no client, \<^verbatim>\<open>Get\<close> reports not found and the handler replies with status 400 and
  the unknown-caller message, after that one lookup. The reply depends on the
  configuration only: it is the same for every such request and registry, whether the
  identity is outside the allow-list or allow-listed and not yet initialized; its status is
  the status of the reply to a request without caller identity. \<^verbatim>\<open>Get\<close> reports not found
  for every identity that is not in the map.
\<close>

theorem Handler_unknown_caller:
  assumes "Method r = ''POST'' \<or> Method r = ''QUERY''"
    and "IsValidName (TrimPrefix (Path r) PathPrefix)"
    and "Decode (Body r) = Decoded req"
    and "AppName req \<noteq> []"
    and "clientMap reg (AppName req) = None"
  shows "Get reg (AppName req) = (None, False) \<and>
     Handler cfg sdk reg r =
       \<lparr>reply = Some
          \<lparr>statusCode = 400,
           responseHeader = [(''Content-Type'', ''text/plain; charset=utf-8''),
                     (''X-Content-Type-Options'', ''nosniff'')],
           responseBody = ''Unknown app_name: must be one of the allowed inbound applications: '' @
             Join (InboundApps cfg) '', '' @ [CHR 0x0A]\<rparr>,
        calls = [ClientsGet (AppName req)]\<rparr> \<and>
     (\<forall>reg' r' req'.
        (Method r' = ''POST'' \<or> Method r' = ''QUERY'') \<and>
        IsValidName (TrimPrefix (Path r') PathPrefix) \<and>
        Decode (Body r') = Decoded req' \<and> AppName req' \<noteq> [] \<and>
        clientMap reg' (AppName req') = None \<longrightarrow>
        reply (Handler cfg sdk reg' r') = reply (Handler cfg sdk reg r)) \<and>
     (\<forall>reg' r' req'.
        (Method r' = ''POST'' \<or> Method r' = ''QUERY'') \<and>
        IsValidName (TrimPrefix (Path r') PathPrefix) \<and>
        Decode (Body r') = Decoded req' \<and> AppName req' = [] \<longrightarrow>
        map_option statusCode (reply (Handler cfg sdk reg' r')) =
          map_option statusCode (reply (Handler cfg sdk reg r))) \<and>
     (\<forall>identity. clientMap reg identity = None \<longrightarrow> Get reg identity = (None, False))"
proof (intro conjI impI allI)
  from assms(5) show "Get reg (AppName req) = (None, False)"
    by (simp add: Get_def)
  note h = Handler_unknown_app [OF assms, of cfg sdk]
  then show "Handler cfg sdk reg r =
       \<lparr>reply = Some
          \<lparr>statusCode = 400,
           responseHeader = [(''Content-Type'', ''text/plain; charset=utf-8''),
                     (''X-Content-Type-Options'', ''nosniff'')],
           responseBody = ''Unknown app_name: must be one of the allowed inbound applications: '' @
             Join (InboundApps cfg) '', '' @ [CHR 0x0A]\<rparr>,
        calls = [ClientsGet (AppName req)]\<rparr>"
    by (simp add: http_Error_def unknownAppNameMessage_def)
  show "reply (Handler cfg sdk reg' r') = reply (Handler cfg sdk reg r)"
    if "(Method r' = ''POST'' \<or> Method r' = ''QUERY'') \<and>
        IsValidName (TrimPrefix (Path r') PathPrefix) \<and>
        Decode (Body r') = Decoded req' \<and> AppName req' \<noteq> [] \<and>
        clientMap reg' (AppName req') = None"
    for reg' r' req'
  proof -
    from that have "Handler cfg sdk reg' r' =
        \<lparr>reply = Some (http_Error (unknownAppNameMessage cfg) 400),
         calls = [ClientsGet (AppName req')]\<rparr>"
      by (intro Handler_unknown_app) simp_all
    with h show ?thesis by simp
  qed
  show "map_option statusCode (reply (Handler cfg sdk reg' r')) =
      map_option statusCode (reply (Handler cfg sdk reg r))"
    if "(Method r' = ''POST'' \<or> Method r' = ''QUERY'') \<and>
         IsValidName (TrimPrefix (Path r') PathPrefix) \<and>
         Decode (Body r') = Decoded req' \<and> AppName req' = []"
    for reg' r' req'
    using that h Handler_missing_app [of r' req' cfg sdk reg'] by (simp add: http_Error_def)
  show "Get reg identity = (None, False)" if "clientMap reg identity = None" for identity
    using that by (simp add: Get_def)
qed

theorem Handler_unknown_caller_witness:
  \<open>IsValidApp exampleConfig ''app2'' \<and> \<not> IsValidApp exampleConfig ''app3'' \<and>
   Get startingRegistry ''app2'' = (None, False) \<and>
   Get startingRegistry ''app3'' = (None, False) \<and>
   Handler exampleConfig exampleSdk startingRegistry
     (exampleRequest\<lparr>Body := ''{"appName":"app2"}''\<rparr>) =
     \<lparr>reply = Some
        \<lparr>statusCode = 400,
         responseHeader = [(''Content-Type'', ''text/plain; charset=utf-8''),
                   (''X-Content-Type-Options'', ''nosniff'')],
         responseBody = ''Unknown app_name: must be one of the allowed inbound applications: app1, app2'' @ [CHR 0x0A]\<rparr>,
      calls = [ClientsGet ''app2'']\<rparr> \<and>
   reply (Handler exampleConfig exampleSdk startingRegistry
     (exampleRequest\<lparr>Body := ''{"appName":"app3"}''\<rparr>)) =
   reply (Handler exampleConfig exampleSdk startingRegistry
     (exampleRequest\<lparr>Body := ''{"appName":"app2"}''\<rparr>)) \<and>
   map_option statusCode (reply (Handler exampleConfig exampleSdk startingRegistry
     (exampleRequest\<lparr>Body := ''{}''\<rparr>))) = Some 400\<close>
proof -
  have apps: "IsValidApp exampleConfig ''app2''" "\<not> IsValidApp exampleConfig ''app3''"
    by (simp_all add: IsValidApp_def exampleConfig_def)
  have valid: "IsValidName (TrimPrefix ''/features/my-flag'' PathPrefix)"
    by (simp add: name_defs)
  have t': \<open>Get startingRegistry ''app2'' = (None, False) \<and>
     Handler exampleConfig exampleSdk startingRegistry
       (exampleRequest\<lparr>Body := ''{"appName":"app2"}''\<rparr>) =
       \<lparr>reply = Some
          \<lparr>statusCode = 400,
           responseHeader = [(''Content-Type'', ''text/plain; charset=utf-8''),
                     (''X-Content-Type-Options'', ''nosniff'')],
           responseBody = ''Unknown app_name: must be one of the allowed inbound applications: '' @
             Join (InboundApps exampleConfig) '', '' @ [CHR 0x0A]\<rparr>,
        calls = [ClientsGet ''app2'']\<rparr> \<and>
     (\<forall>reg' r' req'.
        (Method r' = ''POST'' \<or> Method r' = ''QUERY'') \<and>
        IsValidName (TrimPrefix (Path r') PathPrefix) \<and>
        Decode (Body r') = Decoded req' \<and> AppName req' \<noteq> [] \<and>
        clientMap reg' (AppName req') = None \<longrightarrow>
        reply (Handler exampleConfig exampleSdk reg' r') =
        reply (Handler exampleConfig exampleSdk startingRegistry
          (exampleRequest\<lparr>Body := ''{"appName":"app2"}''\<rparr>))) \<and>
     (\<forall>reg' r' req'.
        (Method r' = ''POST'' \<or> Method r' = ''QUERY'') \<and>
        IsValidName (TrimPrefix (Path r') PathPrefix) \<and>
        Decode (Body r') = Decoded req' \<and> AppName req' = [] \<longrightarrow>
        map_option statusCode (reply (Handler exampleConfig exampleSdk reg' r')) =
          map_option statusCode (reply (Handler exampleConfig exampleSdk startingRegistry
          (exampleRequest\<lparr>Body := ''{"appName":"app2"}''\<rparr>)))) \<and>
     (\<forall>identity. clientMap startingRegistry identity = None \<longrightarrow>
        Get startingRegistry identity = (None, False))\<close>
    using Handler_unknown_caller [of \<open>exampleRequest\<lparr>Body := ''{"appName":"app2"}''\<rparr>\<close>
      "\<lparr>NavIdent = [], AppName = ''app2'', PodName = []\<rparr>" startingRegistry
      exampleConfig exampleSdk] valid
    by (simp add: exampleRequest_def Decode_app2 startingRegistry_clientMap)
  from t' have get2: \<open>Get startingRegistry ''app2'' = (None, False)\<close>
    by (rule conjunct1)
  note h = t' [THEN conjunct2, THEN conjunct1]
  note same' = t' [THEN conjunct2, THEN conjunct2, THEN conjunct1, rule_format]
  note status' = t' [THEN conjunct2, THEN conjunct2, THEN conjunct2, THEN conjunct1, rule_format]
  note get' = t' [THEN conjunct2, THEN conjunct2, THEN conjunct2, THEN conjunct2, rule_format]
  have get3: "Get startingRegistry ''app3'' = (None, False)"
    by (rule get') (simp add: startingRegistry_clientMap)
  have same: \<open>reply (Handler exampleConfig exampleSdk startingRegistry
        (exampleRequest\<lparr>Body := ''{"appName":"app3"}''\<rparr>)) =
      reply (Handler exampleConfig exampleSdk startingRegistry
        (exampleRequest\<lparr>Body := ''{"appName":"app2"}''\<rparr>))\<close>
    by (rule same' [where req' = "\<lparr>NavIdent = [], AppName = ''app3'', PodName = []\<rparr>"])
      (insert valid, simp add: exampleRequest_def Decode_app3 startingRegistry_clientMap)
  have \<open>map_option statusCode (reply (Handler exampleConfig exampleSdk startingRegistry
        (exampleRequest\<lparr>Body := ''{}''\<rparr>))) =
      map_option statusCode (reply (Handler exampleConfig exampleSdk startingRegistry
        (exampleRequest\<lparr>Body := ''{"appName":"app2"}''\<rparr>)))\<close>
    by (rule status' [where req' = "\<lparr>NavIdent = [], AppName = [], PodName = []\<rparr>"])
      (insert valid, simp add: exampleRequest_def Decode_empty_object)
  then have status: \<open>map_option statusCode (reply (Handler exampleConfig exampleSdk startingRegistry
        (exampleRequest\<lparr>Body := ''{}''\<rparr>))) = Some 400\<close>
    unfolding h by simp
  have join: "Join (InboundApps exampleConfig) '', '' = ''app1, app2''"
    by (simp add: exampleConfig_def)
  from apps get2 get3 h [unfolded join] same status show ?thesis
    by simp
qed











text \<open>
  Claim C8. For a request that has passed the checks of the method and of the feature
  name and whose body decodes to a request with an empty caller identity, the handler
  replies with status 400 and a message that lists every identity of the allow-list, and
  makes no call to the registry or to a client.
\<close>

theorem Handler_missing_caller:
  assumes "Method r = ''POST'' \<or> Method r = ''QUERY''"
    and "IsValidName (TrimPrefix (Path r) PathPrefix)"
    and "Decode (Body r) = Decoded req"
    and "AppName req = []"
  shows "Handler cfg sdk reg r =
     \<lparr>reply = Some
        \<lparr>statusCode = 400,
         responseHeader = [(''Content-Type'', ''text/plain; charset=utf-8''),
                   (''X-Content-Type-Options'', ''nosniff'')],
         responseBody = ''app_name is required in request body, must be one of the allowed inbound applications: '' @
           Join (InboundApps cfg) '', '' @ [CHR 0x0A]\<rparr>,
      calls = []\<rparr> \<and>
     (\<forall>identity\<in>set (InboundApps cfg). \<exists>pre post.
        Join (InboundApps cfg) '', '' = pre @ identity @ post)"
  using Handler_missing_app [OF assms, of cfg sdk reg]
  by (auto simp: http_Error_def missingAppNameMessage_def Join_lists)

theorem Handler_missing_caller_witness:
  \<open>Handler exampleConfig exampleSdk exampleRegistry (exampleRequest\<lparr>Body := ''{}''\<rparr>) =
     \<lparr>reply = Some
        \<lparr>statusCode = 400,
         responseHeader = [(''Content-Type'', ''text/plain; charset=utf-8''),
                   (''X-Content-Type-Options'', ''nosniff'')],
         responseBody = ''app_name is required in request body, must be one of the allowed inbound applications: app1, app2'' @ [CHR 0x0A]\<rparr>,
      calls = []\<rparr>\<close>
  using Handler_missing_caller [of \<open>exampleRequest\<lparr>Body := ''{}''\<rparr>\<close>
      "\<lparr>NavIdent = [], AppName = [], PodName = []\<rparr>" exampleConfig exampleSdk exampleRegistry]
  by (simp add: exampleRequest_def Decode_empty_object exampleConfig_def name_defs)

section \<open>Properties of the decoder and of the handler\<close>































end
